theory Spec2Isabelle
  imports Complex_Main
begin

section \<open>JavaScript values, stored texts and durable storage\<close>

text \<open>
  The screens keep their state in React state variables and refs and persist it through
  \<^verbatim>\<open>AsyncStorage\<close>, a durable store of texts under string keys. A JavaScript value that
  travels through \<^verbatim>\<open>JSON.stringify\<close> and \<^verbatim>\<open>JSON.parse\<close> is a value of \<open>json\<close>;
  \<open>JNull\<close> stands for both \<^verbatim>\<open>null\<close> and \<^verbatim>\<open>undefined\<close>, which the code never tells
  apart (it tests with \<^verbatim>\<open>!x\<close>, \<^verbatim>\<open>typeof\<close>, \<^verbatim>\<open>??\<close>, \<^verbatim>\<open>Number.isFinite\<close> and
  \<^verbatim>\<open>Array.isArray\<close> only). A JSON number is a rational number, which covers every
  finite double; scores and counters, which the screens only ever set to whole numbers,
  are \<open>int\<close> in the state.
\<close>

datatype json =
    JNull
  | JBool bool
  | JNum rat
  | JStr string
  | JArr "json list"
  | JObj "(string \<times> json) list"

text \<open>Property access \<^verbatim>\<open>v.k\<close>: \<^verbatim>\<open>undefined\<close> when \<open>v\<close> is not an object or lacks \<open>k\<close>.\<close>

fun jget :: "json \<Rightarrow> string \<Rightarrow> json" where
  "jget (JObj kvs) k = (case map_of kvs k of None \<Rightarrow> JNull | Some v \<Rightarrow> v)"
| "jget _ k = JNull"

text \<open>JavaScript truthiness, as read by \<^verbatim>\<open>!x\<close>, \<^verbatim>\<open>x || y\<close> and \<^verbatim>\<open>Boolean(x)\<close>.\<close>

fun truthy :: "json \<Rightarrow> bool" where
  "truthy JNull = False"
| "truthy (JBool b) = b"
| "truthy (JNum n) = (n \<noteq> 0)"
| "truthy (JStr s) = (s \<noteq> [])"
| "truthy (JArr xs) = True"
| "truthy (JObj kvs) = True"

fun typeof_string :: "json \<Rightarrow> bool" where
  "typeof_string (JStr s) = True"
| "typeof_string _ = False"

fun typeof_number :: "json \<Rightarrow> bool" where
  "typeof_number (JNum n) = True"
| "typeof_number _ = False"

fun typeof_boolean :: "json \<Rightarrow> bool" where
  "typeof_boolean (JBool b) = True"
| "typeof_boolean _ = False"

text \<open>\<^verbatim>\<open>typeof v === 'object'\<close> holds of objects, arrays and \<^verbatim>\<open>null\<close>.\<close>

fun typeof_object :: "json \<Rightarrow> bool" where
  "typeof_object JNull = True"
| "typeof_object (JArr xs) = True"
| "typeof_object (JObj kvs) = True"
| "typeof_object _ = False"

text \<open>
  The decoders of the restore functions: \<^verbatim>\<open>typeof v === 'string' ? v : d\<close> and its kin.
  \<open>finite_or\<close> reads a score or counter, \<^verbatim>\<open>Number.isFinite(v) ? v : d\<close>: the screens
  write whole numbers only, and of a stored number with a fraction, which only another
  writer can leave, the whole part is read.
\<close>

fun string_or :: "json \<Rightarrow> 'a \<Rightarrow> (string \<Rightarrow> 'a) \<Rightarrow> 'a" where
  "string_or (JStr s) d f = f s"
| "string_or _ d f = d"

fun finite_or :: "json \<Rightarrow> 'a \<Rightarrow> (int \<Rightarrow> 'a) \<Rightarrow> 'a" where
  "finite_or (JNum x) d f = f \<lfloor>x\<rfloor>"
| "finite_or _ d f = d"


fun boolean_or :: "json \<Rightarrow> bool \<Rightarrow> bool" where
  "boolean_or (JBool b) d = b"
| "boolean_or _ d = d"

text \<open>\<^verbatim>\<open>v ?? null\<close>, kept as an optional value.\<close>

fun nullish :: "json \<Rightarrow> json option" where
  "nullish JNull = None"
| "nullish v = Some v"

fun json_of_nullable :: "json option \<Rightarrow> json" where
  "json_of_nullable None = JNull"
| "json_of_nullable (Some v) = v"

fun json_of_string_opt :: "string option \<Rightarrow> json" where
  "json_of_string_opt None = JNull"
| "json_of_string_opt (Some s) = JStr s"

text \<open>
  A number that may be \<^verbatim>\<open>NaN\<close>: the high score is read from storage with \<^verbatim>\<open>parseInt\<close>,
  which yields \<^verbatim>\<open>NaN\<close> on a text that does not start with a number. Every comparison with
  \<^verbatim>\<open>NaN\<close> is false, and \<^verbatim>\<open>JSON.stringify\<close> writes it as \<^verbatim>\<open>null\<close>.
\<close>

datatype jsnum = Finite int | NaN

fun exceeds :: "int \<Rightarrow> jsnum \<Rightarrow> bool" where
  "exceeds n (Finite h) = (n > h)"
| "exceeds n NaN = False"

fun json_of_jsnum :: "jsnum \<Rightarrow> json" where
  "json_of_jsnum (Finite n) = JNum (of_int n)"
| "json_of_jsnum NaN = JNull"

text \<open>
  A stored text is known by what the program can observe of it: the value \<^verbatim>\<open>JSON.parse\<close>
  returns (\<open>None\<close> when it throws), the number \<^verbatim>\<open>parseInt(text, 10)\<close> returns (\<open>None\<close> for
  \<^verbatim>\<open>NaN\<close>), and whether it is the empty text, the only falsy one.
\<close>

record stored_text =
  json_parse :: "json option"
  parse_int :: "int option"
  empty_text :: bool

text \<open>
  \<^verbatim>\<open>JSON.stringify(v)\<close>: a non-empty text that parses back to \<open>v\<close>; \<^verbatim>\<open>parseInt\<close> reads a
  number from it only when \<open>v\<close> is itself a number, and then the digits before the
  decimal point. \<^verbatim>\<open>n.toString()\<close> of a whole number is the same text as
  \<^verbatim>\<open>JSON.stringify(n)\<close>, its decimal notation (numbers stay within the sizes that
  JavaScript writes without an exponent).
\<close>

definition JSON_stringify :: "json \<Rightarrow> stored_text" where
  "JSON_stringify v =
     \<lparr>json_parse = Some v,
      parse_int = (case v of JNum x \<Rightarrow> Some (if x < 0 then \<lceil>x\<rceil> else \<lfloor>x\<rfloor>) | _ \<Rightarrow> None),
      empty_text = False\<rparr>"

definition toString :: "int \<Rightarrow> stored_text" where
  "toString n = JSON_stringify (JNum (of_int n))"

type_synonym storage = "string \<rightharpoonup> stored_text"

text \<open>
  The \<^verbatim>\<open>AsyncStorage\<close> calls are taken to succeed: the \<^verbatim>\<open>catch\<close> blocks around them
  only log.
\<close>

definition setItem :: "string \<Rightarrow> stored_text \<Rightarrow> storage \<Rightarrow> storage" where
  "setItem k v d = d(k \<mapsto> v)"

definition removeItem :: "string \<Rightarrow> storage \<Rightarrow> storage" where
  "removeItem k d = d(k := None)"

text \<open>What the screens do to the outside world besides storage.\<close>

datatype effect =
    SubmitScore string int int int int
  | Alert string string
  | Navigate string

text \<open>The outcome of awaiting a round producer: a round, \<^verbatim>\<open>null\<close>, or a rejection.\<close>

datatype fetched = Result json | NoResult | Threw

text \<open>
  What a handler leaves behind: the screen's state, the durable storage and the calls made
  to the score submitter, the alert box and the navigator, oldest first.
\<close>

record 'u world =
  ui :: 'u
  disk :: storage
  effects :: "effect list"

section \<open>The single-player and panorama game screens\<close>

text \<open>
  \<^verbatim>\<open>GameScreen\<close> (MainMenu.tsx) and \<^verbatim>\<open>PanoGameScreen\<close> (PanoGameScreen.tsx) share most of
  their code; \<open>screen\<close> tells which of the two a function is taken from.
\<close>

datatype screen = Game | Pano

definition TOTAL_ROUNDS :: int where
  "TOTAL_ROUNDS = 10"

fun GAME_STATE_STORAGE_KEY :: "screen \<Rightarrow> string" where
  "GAME_STATE_STORAGE_KEY Game = ''geofinder.gameState.v1''"
| "GAME_STATE_STORAGE_KEY Pano = ''geofinder.panoGameState.v1''"

definition GAME_STATE_MAX_AGE_MS :: int where
  "GAME_STATE_MAX_AGE_MS = 1000 * 60 * 60 * 8"

text \<open>The key of the stored high score and the name of the snapshot's image field.\<close>

fun highScoreKey :: "screen \<Rightarrow> string" where
  "highScoreKey Game = ''highScore''"
| "highScoreKey Pano = ''highScorePano''"

fun imageField :: "screen \<Rightarrow> string" where
  "imageField Game = ''imageUrl''"
| "imageField Pano = ''panoramaUrl''"

text \<open>
  The state variables and refs of the two screens. The panorama screen's
  \<^verbatim>\<open>panoramaUrl\<close> is the field \<open>imageUrl\<close> (its setter is named \<^verbatim>\<open>setimageUrl\<close>), and it has
  no \<^verbatim>\<open>zoomImage\<close>. \<open>summaryTimeoutRef\<close> tells whether the summary timer is armed.
  \<open>lastStateRef\<close> holds the object that the state effect stored last, as
  \<^verbatim>\<open>JSON.stringify\<close> will read it, \<open>None\<close> for \<^verbatim>\<open>null\<close>. A round, whether prefetched or
  restored, is kept as the value it arrived as.
\<close>

record game_state =
  loading :: bool
  imageUrl :: "string option"
  country :: "string option"
  countryCode :: "string option"
  displayName :: "string option"
  coord :: "(rat \<times> rat) option"
  contributor :: "string option"
  guess :: string
  guessCount :: int
  incorrectGuesses :: "json list"
  feedback :: string
  gameOver :: bool
  zoomImage :: bool
  currentScore :: int
  highScore :: jsnum
  nextRound :: "json option"
  prefetchIdRef :: nat
  roundNumber :: int
  correctAnswers :: int
  completedRounds :: int
  showGameSummary :: bool
  gameSessionId :: "string option"
  summaryTimeoutRef :: bool
  skipPersistRef :: bool
  submitToLeaderboard :: bool
  isContinued :: bool
  lastStateRef :: "json option"

text \<open>
  The initial values of the \<^verbatim>\<open>useState\<close> and \<^verbatim>\<open>useRef\<close> calls;
  \<open>initialPrefetchedRound\<close> is the round the menu hands over to \<^verbatim>\<open>GameScreen\<close>
  (the panorama screen starts with an empty slot).
\<close>

definition initial_state :: "json option \<Rightarrow> game_state" where
  "initial_state initialPrefetchedRound =
     \<lparr>loading = False, imageUrl = None, country = None, countryCode = None,
      displayName = None, coord = None, contributor = None, guess = [], guessCount = 0,
      incorrectGuesses = [], feedback = [], gameOver = False, zoomImage = False,
      currentScore = 0, highScore = Finite 0, nextRound = initialPrefetchedRound,
      prefetchIdRef = 0, roundNumber = 1, correctAnswers = 0, completedRounds = 0,
      showGameSummary = False, gameSessionId = None, summaryTimeoutRef = False,
      skipPersistRef = False, submitToLeaderboard = True, isContinued = False,
      lastStateRef = None\<rparr>"

subsection \<open>The summary timer\<close>

text \<open>
  Modelled from the spec: \<^verbatim>\<open>scheduleSummaryModal\<close> and \<^verbatim>\<open>cancelSummaryModal\<close> of
  \<^verbatim>\<open>utils/summaryTimer\<close> are not among the sources. A short delay precedes showing the
  summary, and the delay timer can be cancelled: scheduling arms the timer, cancelling
  disarms it, and an armed timer that fires shows the summary.
\<close>

definition scheduleSummaryModal :: "game_state \<Rightarrow> game_state" where
  "scheduleSummaryModal s = s\<lparr>summaryTimeoutRef := True\<rparr>"

definition cancelSummaryModal :: "game_state \<Rightarrow> game_state" where
  "cancelSummaryModal s = s\<lparr>summaryTimeoutRef := False\<rparr>"

definition summaryTimer_fires :: "game_state \<Rightarrow> game_state" where
  "summaryTimer_fires s =
     (if summaryTimeoutRef s then s\<lparr>summaryTimeoutRef := False, showGameSummary := True\<rparr> else s)"

definition clearSummaryTimeout :: "game_state \<Rightarrow> game_state" where
  "clearSummaryTimeout s = cancelSummaryModal s"

subsection \<open>Prefetching the next round\<close>

text \<open>
  \<^verbatim>\<open>prefetchNextRound\<close> runs in two parts. Up to its \<^verbatim>\<open>await\<close> it increments
  \<^verbatim>\<open>prefetchIdRef\<close> and keeps the new value as its \<^verbatim>\<open>requestId\<close>; when the producer
  settles it stores the round only if \<^verbatim>\<open>prefetchIdRef\<close> still equals that \<^verbatim>\<open>requestId\<close>.
  A \<^verbatim>\<open>null\<close> (or otherwise falsy) result returns early and a rejection is logged.
\<close>

definition prefetchNextRound_begin :: "game_state \<Rightarrow> nat \<times> game_state" where
  "prefetchNextRound_begin s =
     (let requestId = prefetchIdRef s + 1
      in (requestId, s\<lparr>prefetchIdRef := requestId\<rparr>))"

fun prefetchNextRound_resume :: "nat \<Rightarrow> fetched \<Rightarrow> game_state \<Rightarrow> game_state" where
  "prefetchNextRound_resume requestId (Result r) s =
     (if \<not> truthy r then s
      else if prefetchIdRef s = requestId then s\<lparr>nextRound := Some r\<rparr>
      else s)"
| "prefetchNextRound_resume requestId NoResult s = s"
| "prefetchNextRound_resume requestId Threw s = s"

text \<open>
  A call whose producer settles before anything else happens: both parts in a row, the
  second with the \<^verbatim>\<open>requestId\<close> that the first has kept.
\<close>

definition prefetchNextRound :: "fetched \<Rightarrow> game_state \<Rightarrow> game_state" where
  "prefetchNextRound outcome s =
     (case prefetchNextRound_begin s of
        (requestId, s1) \<Rightarrow> prefetchNextRound_resume requestId outcome s1)"

text \<open>
  A history of prefetching on one screen. \<open>Issue\<close> is a call of \<^verbatim>\<open>prefetchNextRound\<close> up
  to its \<^verbatim>\<open>await\<close>; the \<^verbatim>\<open>requestId\<close> it has kept is added to the list of the calls
  in flight. \<open>Settle k outcome\<close> is the rest of call number \<open>k\<close> (from 0, in the order
  of calling), run with the \<^verbatim>\<open>requestId\<close> that this call has kept, in whatever order the
  producers settle. A call that was never made cannot settle.
\<close>

datatype prefetch_event = Issue | Settle nat fetched

fun prefetch_step :: "prefetch_event \<Rightarrow> nat list \<times> game_state \<Rightarrow> nat list \<times> game_state" where
  "prefetch_step Issue (kept, s) =
     (case prefetchNextRound_begin s of (requestId, s1) \<Rightarrow> (kept @ [requestId], s1))"
| "prefetch_step (Settle k outcome) (kept, s) =
     (if k < length kept then (kept, prefetchNextRound_resume (kept ! k) outcome s)
      else (kept, s))"

fun prefetch_run :: "prefetch_event list \<Rightarrow> nat list \<times> game_state \<Rightarrow> nat list \<times> game_state" where
  "prefetch_run [] c = c"
| "prefetch_run (e # es) c = prefetch_run es (prefetch_step e c)"

fun issues :: "prefetch_event list \<Rightarrow> nat" where
  "issues [] = 0"
| "issues (Issue # es) = Suc (issues es)"
| "issues (Settle k outcome # es) = issues es"

subsection \<open>Texts\<close>

text \<open>
  A text is the list of the bytes of its UTF-8 encoding. \<open>WhiteSpace\<close> lists the
  encodings of the code points that \<^verbatim>\<open>String.prototype.trim\<close> removes, the white space
  and line terminators of ECMAScript: U+0009 to U+000D, U+0020, U+00A0, U+1680, U+2000 to
  U+200A, U+2028, U+2029, U+202F, U+205F, U+3000 and U+FEFF.
\<close>

definition WhiteSpace :: "string list" where
  "WhiteSpace =
     [[CHR 0x09], [CHR 0x0A], [CHR 0x0B], [CHR 0x0C], [CHR 0x0D], [CHR 0x20],
      [CHR 0xC2, CHR 0xA0],
      [CHR 0xE1, CHR 0x9A, CHR 0x80],
      [CHR 0xE2, CHR 0x80, CHR 0x80], [CHR 0xE2, CHR 0x80, CHR 0x81],
      [CHR 0xE2, CHR 0x80, CHR 0x82], [CHR 0xE2, CHR 0x80, CHR 0x83],
      [CHR 0xE2, CHR 0x80, CHR 0x84], [CHR 0xE2, CHR 0x80, CHR 0x85],
      [CHR 0xE2, CHR 0x80, CHR 0x86], [CHR 0xE2, CHR 0x80, CHR 0x87],
      [CHR 0xE2, CHR 0x80, CHR 0x88], [CHR 0xE2, CHR 0x80, CHR 0x89],
      [CHR 0xE2, CHR 0x80, CHR 0x8A],
      [CHR 0xE2, CHR 0x80, CHR 0xA8], [CHR 0xE2, CHR 0x80, CHR 0xA9],
      [CHR 0xE2, CHR 0x80, CHR 0xAF],
      [CHR 0xE2, CHR 0x81, CHR 0x9F],
      [CHR 0xE3, CHR 0x80, CHR 0x80],
      [CHR 0xEF, CHR 0xBB, CHR 0xBF]]"

text \<open>The number of bytes of the code point of \<open>ws\<close> that \<open>s\<close> starts with, 0 for none.\<close>

definition space_at :: "string list \<Rightarrow> string \<Rightarrow> nat" where
  "space_at ws s =
     (case find (\<lambda>p. take (length p) s = p) ws of None \<Rightarrow> 0 | Some p \<Rightarrow> length p)"

fun strip :: "string list \<Rightarrow> string \<Rightarrow> string" where
  "strip ws [] = []"
| "strip ws (c # cs) =
     (if space_at ws (c # cs) = 0 then c # cs
      else strip ws (drop (space_at ws (c # cs) - 1) cs))"

declare strip.simps [simp del]

text \<open>
  \<^verbatim>\<open>String.prototype.trim\<close>: white space is removed from the start, and from the end by
  reading the text and the encodings backwards.
\<close>

definition trim :: "string \<Rightarrow> string" where
  "trim s = rev (strip (map rev WhiteSpace) (rev (strip WhiteSpace s)))"

text \<open>Decimal notation of a whole number, as a template literal writes it.\<close>

fun show_nat :: "nat \<Rightarrow> string" where
  "show_nat n =
     (if n < 10 then [char_of (48 + n)]
      else show_nat (n div 10) @ [char_of (48 + n mod 10)])"

declare show_nat.simps [simp del]

definition show_int :: "int \<Rightarrow> string" where
  "show_int i = (if i < 0 then CHR ''-'' # show_nat (nat (- i)) else show_nat (nat i))"

text \<open>
  \<^verbatim>\<open>x.toFixed(4)\<close> of a number of magnitude below \<open>10\<^sup>2\<^sup>1\<close>, as every latitude and
  longitude is: the sign, then the nearest multiple of 0.0001 to the magnitude (the larger
  of two that are equally near), written with four decimals.
\<close>

definition toFixed4 :: "rat \<Rightarrow> string" where
  "toFixed4 x =
     (let n = nat \<lfloor>\<bar>x\<bar> * 10000 + 1 / 2\<rfloor>
      in (if x < 0 then ''-'' else []) @ show_nat (n div 10000) @ ''.''
         @ [char_of (48 + n div 1000 mod 10), char_of (48 + n div 100 mod 10),
            char_of (48 + n div 10 mod 10), char_of (48 + n mod 10)])"

text \<open>A nullable text inside a template literal: \<^verbatim>\<open>null\<close> is written out.\<close>

fun interpolate :: "string option \<Rightarrow> string" where
  "interpolate None = ''null''"
| "interpolate (Some t) = t"

text \<open>The check mark U+2705 and the cross mark U+274C, in UTF-8.\<close>

definition check_mark :: string where
  "check_mark = [CHR 0xE2, CHR 0x9C, CHR 0x85]"

definition cross_mark :: string where
  "cross_mark = [CHR 0xE2, CHR 0x9D, CHR 0x8C]"

subsection \<open>The state effect and the snapshot\<close>

fun json_of_coord :: "(rat \<times> rat) option \<Rightarrow> json" where
  "json_of_coord None = JNull"
| "json_of_coord (Some (la, lo)) = JObj [(''lat'', JNum la), (''lon'', JNum lo)]"

text \<open>The object literal that the state effect builds from the state variables.\<close>

definition snapshot_object :: "screen \<Rightarrow> game_state \<Rightarrow> json" where
  "snapshot_object scr s = JObj
     [(imageField scr, json_of_string_opt (imageUrl s)),
      (''country'', json_of_string_opt (country s)),
      (''countryCode'', json_of_string_opt (countryCode s)),
      (''displayName'', json_of_string_opt (displayName s)),
      (''coord'', json_of_coord (coord s)),
      (''contributor'', json_of_string_opt (contributor s)),
      (''guess'', JStr (guess s)),
      (''guessCount'', JNum (of_int (guessCount s))),
      (''incorrectGuesses'', JArr (incorrectGuesses s)),
      (''feedback'', JStr (feedback s)),
      (''gameOver'', JBool (gameOver s)),
      (''currentScore'', JNum (of_int (currentScore s))),
      (''highScore'', json_of_jsnum (highScore s)),
      (''nextRound'', json_of_nullable (nextRound s)),
      (''roundNumber'', JNum (of_int (roundNumber s))),
      (''correctAnswers'', JNum (of_int (correctAnswers s))),
      (''completedRounds'', JNum (of_int (completedRounds s))),
      (''showGameSummary'', JBool (showGameSummary s)),
      (''gameSessionId'', json_of_string_opt (gameSessionId s)),
      (''submitToLeaderboard'', JBool (submitToLeaderboard s)),
      (''isContinued'', JBool (isContinued s))]"

text \<open>
  The effect that runs after a render in which one of these variables changed:
  \<^verbatim>\<open>lastStateRef.current = { imageUrl, country, ... }\<close>.
\<close>

definition storeLastState :: "screen \<Rightarrow> game_state \<Rightarrow> game_state" where
  "storeLastState scr s = s\<lparr>lastStateRef := Some (snapshot_object scr s)\<rparr>"

text \<open>\<^verbatim>\<open>{ ...snapshot, savedAt: Date.now() }\<close>: the new field overrides an older one.\<close>

fun with_savedAt :: "json \<Rightarrow> int \<Rightarrow> json" where
  "with_savedAt (JObj kvs) now = JObj ((''savedAt'', JNum (of_int now)) # kvs)"
| "with_savedAt _ now = JObj [(''savedAt'', JNum (of_int now))]"

subsection \<open>Persisting and restoring\<close>

text \<open>
  \<^verbatim>\<open>persistGameState\<close>: without a snapshot, or with one whose image field is falsy, the
  stored key is removed; otherwise the snapshot is written with the time of writing.
  \<open>now\<close> is \<^verbatim>\<open>Date.now()\<close>. The panorama screen defines the function as well.
\<close>

definition persistGameState :: "screen \<Rightarrow> int \<Rightarrow> game_state world \<Rightarrow> game_state world" where
  "persistGameState scr now w =
     (case lastStateRef (ui w) of
        None \<Rightarrow> w\<lparr>disk := removeItem (GAME_STATE_STORAGE_KEY scr) (disk w)\<rparr>
      | Some snapshot \<Rightarrow>
          if \<not> truthy (jget snapshot (imageField scr))
          then w\<lparr>disk := removeItem (GAME_STATE_STORAGE_KEY scr) (disk w)\<rparr>
          else w\<lparr>disk := setItem (GAME_STATE_STORAGE_KEY scr)
                          (JSON_stringify (with_savedAt snapshot now)) (disk w)\<rparr>)"

definition clearPersistedGameState :: "screen \<Rightarrow> game_state world \<Rightarrow> game_state world" where
  "clearPersistedGameState scr w = w\<lparr>disk := removeItem (GAME_STATE_STORAGE_KEY scr) (disk w)\<rparr>"

text \<open>
  \<^verbatim>\<open>parsed.coord && typeof parsed.coord.lat === 'number' && typeof parsed.coord.lon === 'number'\<close>
\<close>

definition coord_of_json :: "json \<Rightarrow> (rat \<times> rat) option" where
  "coord_of_json c =
     (if truthy c
      then (case (jget c ''lat'', jget c ''lon'') of
              (JNum la, JNum lo) \<Rightarrow> Some (la, lo)
            | _ \<Rightarrow> None)
      else None)"

text \<open>
  The guesses that are restored: \<^verbatim>\<open>GameScreen\<close> keeps the texts of the stored array,
  the panorama screen takes the array as it is.
\<close>

fun restored_guesses :: "screen \<Rightarrow> json \<Rightarrow> json list" where
  "restored_guesses Game (JArr xs) = filter typeof_string xs"
| "restored_guesses Pano (JArr xs) = xs"
| "restored_guesses scr _ = []"

text \<open>
  The high score used when the stored one is no finite number: \<^verbatim>\<open>GameScreen\<close> falls
  back on the \<^verbatim>\<open>highScore\<close> that the callback closed over, the panorama screen on 0.
\<close>

fun highScore_fallback :: "screen \<Rightarrow> jsnum \<Rightarrow> jsnum" where
  "highScore_fallback Game closedOver = closedOver"
| "highScore_fallback Pano closedOver = Finite 0"

text \<open>The setter calls of \<^verbatim>\<open>restorePersistedGameState\<close>, from \<^verbatim>\<open>setImageUrl\<close> on.\<close>

definition applySnapshot :: "screen \<Rightarrow> jsnum \<Rightarrow> json \<Rightarrow> game_state \<Rightarrow> game_state" where
  "applySnapshot scr closedOver parsed s = s
     \<lparr>imageUrl := string_or (jget parsed (imageField scr)) None Some,
      coord := coord_of_json (jget parsed ''coord''),
      contributor := string_or (jget parsed ''contributor'') None Some,
      country := string_or (jget parsed ''country'') None Some,
      countryCode := string_or (jget parsed ''countryCode'') None Some,
      displayName := string_or (jget parsed ''displayName'') None Some,
      guess := string_or (jget parsed ''guess'') [] id,
      guessCount := finite_or (jget parsed ''guessCount'') 0 id,
      incorrectGuesses := restored_guesses scr (jget parsed ''incorrectGuesses''),
      feedback := string_or (jget parsed ''feedback'') [] id,
      gameOver := truthy (jget parsed ''gameOver''),
      currentScore := finite_or (jget parsed ''currentScore'') 0 id,
      highScore := finite_or (jget parsed ''highScore'') (highScore_fallback scr closedOver) Finite,
      roundNumber := finite_or (jget parsed ''roundNumber'') 1 id,
      correctAnswers := finite_or (jget parsed ''correctAnswers'') 0 id,
      completedRounds := finite_or (jget parsed ''completedRounds'') 0 id,
      showGameSummary := truthy (jget parsed ''showGameSummary''),
      gameSessionId := string_or (jget parsed ''gameSessionId'') None Some,
      submitToLeaderboard := boolean_or (jget parsed ''submitToLeaderboard'') True,
      isContinued := truthy (jget parsed ''isContinued''),
      nextRound := nullish (jget parsed ''nextRound''),
      loading := False\<rparr>"

text \<open>
  \<^verbatim>\<open>restorePersistedGameState\<close> returns whether a snapshot was restored. A missing or empty
  text returns \<^verbatim>\<open>false\<close> at once; a text that \<^verbatim>\<open>JSON.parse\<close> rejects ends in the
  \<^verbatim>\<open>catch\<close> block, which logs and returns \<^verbatim>\<open>false\<close>; a value that is no object with a
  truthy image field and a numeric \<^verbatim>\<open>savedAt\<close>, and a snapshot older than the maximal
  age, are cleared. \<open>closedOver\<close> is the \<^verbatim>\<open>highScore\<close> in the callback's closure.
\<close>

definition restorePersistedGameState ::
  "screen \<Rightarrow> jsnum \<Rightarrow> int \<Rightarrow> game_state world \<Rightarrow> bool \<times> game_state world" where
  "restorePersistedGameState scr closedOver now w =
     (case disk w (GAME_STATE_STORAGE_KEY scr) of
        None \<Rightarrow> (False, w)
      | Some raw \<Rightarrow>
          if empty_text raw then (False, w)
          else (case json_parse raw of
                  None \<Rightarrow> (False, w)
                | Some parsed \<Rightarrow>
                    (case jget parsed ''savedAt'' of
                       JNum savedAt \<Rightarrow>
                         if \<not> truthy parsed \<or> \<not> typeof_object parsed
                            \<or> \<not> truthy (jget parsed (imageField scr))
                         then (False, clearPersistedGameState scr w)
                         else if of_int now - savedAt > of_int GAME_STATE_MAX_AGE_MS
                         then (False, clearPersistedGameState scr w)
                         else (True, w\<lparr>ui := applySnapshot scr closedOver parsed (ui w)\<rparr>)
                     | _ \<Rightarrow> (False, clearPersistedGameState scr w))))"

subsection \<open>Playing a round\<close>

text \<open>The points of a correct guess, by the number of the attempt.\<close>

definition pointsEarned :: "int \<Rightarrow> int" where
  "pointsEarned newGuessCount =
     (if newGuessCount = 1 then 3
      else if newGuessCount = 2 then 2
      else if newGuessCount = 3 then 1
      else 0)"

definition coordStr :: "(rat \<times> rat) option \<Rightarrow> string" where
  "coordStr c =
     (case c of
        None \<Rightarrow> []
      | Some (la, lo) \<Rightarrow> ''('' @ toFixed4 la @ '', '' @ toFixed4 lo @ '')'')"

text \<open>
  The updater given to \<^verbatim>\<open>setCompletedRounds\<close> when a round is complete: the last round
  of a session schedules the summary, any other moves to the next round number.
\<close>

definition completeRound :: "game_state \<Rightarrow> game_state" where
  "completeRound s =
     (let updatedCompleted = completedRounds s + 1;
          s1 = (if updatedCompleted \<ge> TOTAL_ROUNDS then scheduleSummaryModal s
                else s\<lparr>roundNumber := roundNumber s + 1\<rparr>)
      in s1\<lparr>completedRounds := updatedCompleted\<rparr>)"

text \<open>The branch of \<^verbatim>\<open>submitGuess\<close> for a correct guess.\<close>

definition guessedRight :: "screen \<Rightarrow> game_state \<Rightarrow> int \<Rightarrow> game_state world \<Rightarrow> game_state world" where
  "guessedRight scr s newGuessCount w =
     (let newScore = currentScore s + pointsEarned newGuessCount;
          w1 = w\<lparr>ui := (ui w)
                 \<lparr>feedback := check_mark @ '' Correct! It was '' @ interpolate (displayName s),
                  gameOver := True,
                  correctAnswers := correctAnswers s + 1,
                  currentScore := newScore\<rparr>\<rparr>
      in if exceeds newScore (highScore s)
         then w1\<lparr>ui := (ui w1)\<lparr>highScore := Finite newScore\<rparr>,
                  disk := setItem (highScoreKey scr) (toString newScore) (disk w1)\<rparr>
         else w1)"

text \<open>The branch of \<^verbatim>\<open>submitGuess\<close> for a wrong guess.\<close>

definition guessedWrong :: "game_state \<Rightarrow> int \<Rightarrow> game_state world \<Rightarrow> game_state world" where
  "guessedWrong s newGuessCount w =
     (let newIncorrect = incorrectGuesses s @ [JStr (guess s)];
          w1 = w\<lparr>ui := (ui w)\<lparr>incorrectGuesses := newIncorrect\<rparr>\<rparr>
      in if newGuessCount \<ge> 3 then
           let w2 = w1\<lparr>ui := (ui w1)
                     \<lparr>feedback := cross_mark @ '' Game over! It was '' @ interpolate (displayName s)
                        @ (if coordStr (coord s) \<noteq> [] then '' '' @ coordStr (coord s) else [])\<rparr>\<rparr>;
               w3 = (if isContinued s
                     then w2\<lparr>ui := (ui w2)\<lparr>currentScore := currentScore s - 1\<rparr>\<rparr>
                     else w2)
           in w3\<lparr>ui := (ui w3)\<lparr>gameOver := True\<rparr>\<rparr>
         else w1\<lparr>ui := (ui w1)
                 \<lparr>feedback := cross_mark @ '' Not quite. Try again! (Guess ''
                    @ show_int newGuessCount @ ''/3)''\<rparr>\<rparr>)"

text \<open>
  \<^verbatim>\<open>submitGuess\<close>. \<open>normalizeCountry\<close> and \<open>matchGuess\<close> are the functions of
  \<^verbatim>\<open>services/geoApiUtils\<close>, which are not among the sources and are taken as given.
  The handler reads the state variables of the render it was created in (\<open>s\<close>).
\<close>

definition submitGuess ::
  "screen \<Rightarrow> (string \<Rightarrow> string) \<Rightarrow> (string \<Rightarrow> string option \<Rightarrow> string option \<Rightarrow> bool) \<Rightarrow>
   game_state world \<Rightarrow> game_state world" where
  "submitGuess scr normalizeCountry matchGuess w =
     (let s = ui w in
      if trim (guess s) = [] then w
      else
        let normalizedGuess = normalizeCountry (guess s);
            isCorrect = matchGuess normalizedGuess (country s) (countryCode s);
            newGuessCount = guessCount s + 1;
            w1 = w\<lparr>ui := s\<lparr>guessCount := newGuessCount\<rparr>\<rparr>;
            w2 = (if isCorrect then guessedRight scr s newGuessCount w1
                  else guessedWrong s newGuessCount w1);
            w3 = w2\<lparr>ui := (ui w2)\<lparr>guess := []\<rparr>\<rparr>
        in if isCorrect \<or> newGuessCount \<ge> 3
           then w3\<lparr>ui := completeRound (ui w3)\<rparr>
           else w3)"

text \<open>
  \<^verbatim>\<open>continueGame\<close> is followed by \<^verbatim>\<open>startGame\<close>, defined below; this is its own part.
\<close>

definition continueGame_resets :: "game_state \<Rightarrow> game_state" where
  "continueGame_resets s =
     (clearSummaryTimeout s)
       \<lparr>roundNumber := 1, completedRounds := 0, showGameSummary := False, isContinued := True\<rparr>"

subsection \<open>Starting a round and a session\<close>

text \<open>A nullable text that is truthy: neither \<^verbatim>\<open>null\<close> nor empty.\<close>

fun has_text :: "string option \<Rightarrow> bool" where
  "has_text None = False"
| "has_text (Some t) = (t \<noteq> [])"

text \<open>The field of a round that holds its picture.\<close>

fun pictureField :: "screen \<Rightarrow> string" where
  "pictureField Game = ''image''"
| "pictureField Pano = ''pano''"

fun fetchFailedText :: "screen \<Rightarrow> string" where
  "fetchFailedText Game = ''Could not fetch an image. Try again.''"
| "fetchFailedText Pano = ''Could not fetch a panorama. Try again.''"

definition alert :: "string \<Rightarrow> string \<Rightarrow> 'u world \<Rightarrow> 'u world" where
  "alert title message w = w\<lparr>effects := effects w @ [Alert title message]\<rparr>"

text \<open>
  The setter calls of \<^verbatim>\<open>startGame\<close> once it has a round in hand, up to and with the
  call of \<^verbatim>\<open>prefetchNextRound\<close>, of which only the part before its \<^verbatim>\<open>await\<close> runs here.
  Reading \<^verbatim>\<open>.url\<close> of a missing picture throws, which the \<^verbatim>\<open>catch\<close> block of
  \<^verbatim>\<open>startGame\<close> answers with an alert. The fields of a round have the types that
  \<^verbatim>\<open>PrefetchedRound\<close> and \<^verbatim>\<open>PanoRound\<close> declare; a field of another type reads as
  \<^verbatim>\<open>null\<close>. \<open>s\<close> is the state of the render the handler was created in.
\<close>

definition showRound :: "screen \<Rightarrow> game_state \<Rightarrow> json \<Rightarrow> game_state world \<Rightarrow> game_state world" where
  "showRound scr s roundData w =
     (let picture = jget roundData (pictureField scr) in
      if picture = JNull then alert ''Error'' ''Failed to start game.'' w
      else
        let u1 = (ui w)
              \<lparr>imageUrl := string_or (jget picture ''url'') None Some,
               coord := coord_of_json (jget picture ''coord''),
               contributor := string_or (jget picture ''contributor'') None Some\<rparr>;
            countryInfo = jget roundData ''countryInfo'';
            u2 = (if truthy countryInfo
                  then u1\<lparr>country := string_or (jget countryInfo ''country'') None Some,
                          countryCode := string_or (jget countryInfo ''countryCode'') None Some,
                          displayName := string_or (jget countryInfo ''displayName'') None Some\<rparr>
                  else u1\<lparr>displayName := Some ''Unknown''\<rparr>);
            u3 = (case scr of
                    Game \<Rightarrow> snd (prefetchNextRound_begin u2)
                  | Pano \<Rightarrow> if roundNumber s > 1 then snd (prefetchNextRound_begin u2) else u2)
        in w\<lparr>ui := u3\<rparr>)"

text \<open>
  \<^verbatim>\<open>startGame\<close>. The round comes from the prefetch slot when that is filled, and from
  the producer otherwise, whose outcome is \<open>outcome\<close>. The handler reads
  \<^verbatim>\<open>completedRounds\<close>, \<^verbatim>\<open>nextRound\<close> and \<^verbatim>\<open>roundNumber\<close> of its own render (\<open>s\<close>) and
  writes to the current state.
\<close>

definition startGame :: "screen \<Rightarrow> game_state \<Rightarrow> fetched \<Rightarrow> game_state world \<Rightarrow> game_state world" where
  "startGame scr s outcome w =
     (let u0 = (clearSummaryTimeout (ui w))\<lparr>showGameSummary := False\<rparr>;
          u1 = (if completedRounds s \<ge> TOTAL_ROUNDS
                then u0\<lparr>completedRounds := 0, roundNumber := 1\<rparr> else u0);
          hasPrefetched = (nextRound s \<noteq> None);
          u2 = (case scr of
                  Game \<Rightarrow> if \<not> hasPrefetched then u1\<lparr>loading := True\<rparr> else u1
                | Pano \<Rightarrow> u1\<lparr>loading := True\<rparr>);
          u3 = u2\<lparr>imageUrl := None, country := None, countryCode := None, displayName := None,
                  coord := None, contributor := None, guess := [], guessCount := 0,
                  incorrectGuesses := [], feedback := [], gameOver := False\<rparr>;
          w3 = w\<lparr>ui := u3\<rparr>;
          w4 = (if truthy (json_of_nullable (nextRound s))
                then showRound scr s (json_of_nullable (nextRound s))
                       (w3\<lparr>ui := u3\<lparr>nextRound := None\<rparr>\<rparr>)
                else (case outcome of
                        Result r \<Rightarrow>
                          if \<not> truthy r then alert ''Error'' (fetchFailedText scr) w3
                          else showRound scr s r w3
                      | NoResult \<Rightarrow> alert ''Error'' (fetchFailedText scr) w3
                      | Threw \<Rightarrow> alert ''Error'' ''Failed to start game.'' w3))
      in w4\<lparr>ui := (ui w4)\<lparr>loading := False\<rparr>\<rparr>)"

text \<open>
  \<^verbatim>\<open>storeGameSessionId\<close> appends the identifier to the stored list unless it is there.
  When the stored text is no array the call ends in its \<^verbatim>\<open>catch\<close> block, or writes
  back the text it read; storage is the same either way.
\<close>

definition storeGameSessionId :: "string \<Rightarrow> storage \<Rightarrow> storage" where
  "storeGameSessionId sid d =
     (let write = (\<lambda>parsed. setItem ''gameSessionIds''
                     (JSON_stringify (JArr (if JStr sid \<in> set parsed then parsed
                                            else parsed @ [JStr sid]))) d)
      in case d ''gameSessionIds'' of
           None \<Rightarrow> write []
         | Some existing \<Rightarrow>
             if empty_text existing then write []
             else (case json_parse existing of
                     Some (JArr parsed) \<Rightarrow> write parsed
                   | _ \<Rightarrow> d))"

text \<open>
  \<^verbatim>\<open>initializeGameSession\<close>. \<open>session\<close> is the identifier that \<^verbatim>\<open>startGameSession\<close>
  returns, \<open>None\<close> when it fails, and the game goes on without one.
\<close>

definition initializeGameSession ::
  "screen \<Rightarrow> game_state \<Rightarrow> string option \<Rightarrow> fetched \<Rightarrow> game_state world \<Rightarrow> game_state world" where
  "initializeGameSession scr s session outcome w =
     (let w1 = w\<lparr>ui := (ui w)\<lparr>loading := True\<rparr>\<rparr>;
          w2 = (case session of
                  Some sid \<Rightarrow>
                    startGame scr s outcome
                      (w1\<lparr>ui := (ui w1)\<lparr>gameSessionId := Some sid\<rparr>,
                          disk := storeGameSessionId sid (disk w1)\<rparr>)
                | None \<Rightarrow>
                    startGame scr s outcome
                      (alert ''Warning'' ''Could not start game session. Playing in offline mode.'' w1))
      in w2\<lparr>ui := (ui w2)\<lparr>loading := False\<rparr>\<rparr>)"

definition continueGame :: "screen \<Rightarrow> fetched \<Rightarrow> game_state world \<Rightarrow> game_state world" where
  "continueGame scr outcome w =
     startGame scr (ui w) outcome (w\<lparr>ui := continueGame_resets (ui w)\<rparr>)"

subsection \<open>Leaving the session and starting a new one\<close>

text \<open>
  The condition under which a score is submitted:
  \<^verbatim>\<open>submitToLeaderboard && gameSessionId && currentScore > 0\<close>.
\<close>

definition submissionDue :: "game_state \<Rightarrow> bool" where
  "submissionDue s = (submitToLeaderboard s \<and> has_text (gameSessionId s) \<and> currentScore s > 0)"

text \<open>The call \<^verbatim>\<open>submitScore(gameSessionId, currentScore, {...})\<close>.\<close>

definition submitScore :: "game_state \<Rightarrow> 'u world \<Rightarrow> 'u world" where
  "submitScore s w =
     w\<lparr>effects := effects w @
          [SubmitScore (case gameSessionId s of None \<Rightarrow> [] | Some sid \<Rightarrow> sid) (currentScore s)
             (correctAnswers s) TOTAL_ROUNDS (completedRounds s)]\<rparr>"

text \<open>
  \<^verbatim>\<open>handleReturnToMainMenu\<close>. \<open>submitted\<close> tells whether \<^verbatim>\<open>submitScore\<close> succeeds when it
  is called.
\<close>

definition handleReturnToMainMenu :: "screen \<Rightarrow> bool \<Rightarrow> game_state world \<Rightarrow> game_state world" where
  "handleReturnToMainMenu scr submitted w =
     (let s = ui w;
          w1 = w\<lparr>ui := s\<lparr>skipPersistRef := True\<rparr>\<rparr>;
          w2 = (if submissionDue s
                then (if submitted then submitScore s w1
                      else alert ''Warning'' ''Could not submit score to leaderboard.''
                             (submitScore s w1))
                else w1);
          w3 = clearPersistedGameState scr w2;
          w4 = w3\<lparr>ui := (clearSummaryTimeout (ui w3))\<lparr>showGameSummary := False\<rparr>\<rparr>
      in w4\<lparr>effects := effects w4 @ [Navigate ''MainMenu'']\<rparr>)"

text \<open>The four resets and \<^verbatim>\<open>setIsContinued(false)\<close> of the New Game button.\<close>

definition startFresh :: "game_state \<Rightarrow> game_state" where
  "startFresh u = u\<lparr>currentScore := 0, correctAnswers := 0, completedRounds := 0,
                     roundNumber := 1, isContinued := False\<rparr>"

text \<open>
  The \<^verbatim>\<open>onPress\<close> handler of the New Game button of the summary. When the score is due
  and its submission fails, the handler shows an alert and does nothing else.
\<close>

definition newGame_onPress ::
  "screen \<Rightarrow> bool \<Rightarrow> string option \<Rightarrow> fetched \<Rightarrow> game_state world \<Rightarrow> game_state world" where
  "newGame_onPress scr submitted session outcome w =
     (let s = ui w in
      if submissionDue s then
        (let w1 = submitScore s w in
         if submitted then
           initializeGameSession scr s session outcome
             (alert ''Success'' ''Score submitted to leaderboard! Starting fresh game...''
                (w1\<lparr>ui := startFresh (ui w1)\<rparr>))
         else alert ''Error'' ''Could not submit score to leaderboard.'' w1)
      else initializeGameSession scr s session outcome (w\<lparr>ui := startFresh (ui w)\<rparr>))"

subsection \<open>Mounting, leaving the foreground and unmounting\<close>

text \<open>
  \<^verbatim>\<open>loadHighScore\<close>: a stored, non-empty text under the high-score key is read with
  \<^verbatim>\<open>parseInt\<close> and becomes the high score.
\<close>

definition loadHighScore :: "screen \<Rightarrow> game_state world \<Rightarrow> game_state world" where
  "loadHighScore scr w =
     (case disk w (highScoreKey scr) of
        None \<Rightarrow> w
      | Some stored \<Rightarrow>
          if empty_text stored then w
          else w\<lparr>ui := (ui w)\<lparr>highScore :=
                  (case parse_int stored of None \<Rightarrow> NaN | Some n \<Rightarrow> Finite n)\<rparr>\<rparr>)"

datatype AppStateStatus = Active | Background | Inactive

text \<open>
  The write that the two handlers of the panorama screen and one handler of the duel
  screen make themselves, without looking at what the snapshot holds:
  \<^verbatim>\<open>if (snapshot) AsyncStorage.setItem(key, JSON.stringify({ ...snapshot, savedAt: Date.now() }))\<close>.
\<close>

definition writeSnapshot :: "string \<Rightarrow> json option \<Rightarrow> int \<Rightarrow> storage \<Rightarrow> storage" where
  "writeSnapshot key ref now d =
     (case ref of
        None \<Rightarrow> d
      | Some snapshot \<Rightarrow> setItem key (JSON_stringify (with_savedAt snapshot now)) d)"

fun handleAppStateChange ::
  "screen \<Rightarrow> int \<Rightarrow> AppStateStatus \<Rightarrow> game_state world \<Rightarrow> game_state world" where
  "handleAppStateChange Game now nextState w =
     (if nextState = Background \<or> nextState = Inactive then
        (let w1 = w\<lparr>ui := clearSummaryTimeout (ui w)\<rparr>
         in if \<not> skipPersistRef (ui w1) then persistGameState Game now w1 else w1)
      else w)"
| "handleAppStateChange Pano now nextState w =
     (if nextState = Background \<or> nextState = Inactive then
        (let w1 = w\<lparr>ui := clearSummaryTimeout (ui w)\<rparr>
         in if \<not> skipPersistRef (ui w1)
            then w1\<lparr>disk := writeSnapshot (GAME_STATE_STORAGE_KEY Pano)
                              (lastStateRef (ui w1)) now (disk w1)\<rparr>
            else w1)
      else w)"

text \<open>The cleanup that the mount effect returns, run when the screen is unmounted.\<close>

fun unmount_cleanup :: "screen \<Rightarrow> int \<Rightarrow> game_state world \<Rightarrow> game_state world" where
  "unmount_cleanup Game now w =
     (let w1 = w\<lparr>ui := clearSummaryTimeout (ui w)\<rparr>
      in if \<not> skipPersistRef (ui w1) then persistGameState Game now w1
         else w1\<lparr>ui := (ui w1)\<lparr>skipPersistRef := False\<rparr>\<rparr>)"
| "unmount_cleanup Pano now w =
     (let w1 = w\<lparr>ui := clearSummaryTimeout (ui w)\<rparr>
      in if \<not> skipPersistRef (ui w1)
         then w1\<lparr>disk := writeSnapshot (GAME_STATE_STORAGE_KEY Pano)
                           (lastStateRef (ui w1)) now (disk w1)\<rparr>
         else w1\<lparr>ui := (ui w1)\<lparr>skipPersistRef := False\<rparr>\<rparr>)"

text \<open>
  \<^verbatim>\<open>bootstrap\<close>, run once when the screen mounts: restore, and failing that clear the
  key and start a session. The mount effect keeps the callbacks of the first render,
  whose state is the initial one: the restore falls back on the initial high score, and
  \<^verbatim>\<open>initializeGameSession\<close> reads the initial state. \<open>initialPrefetchedRound\<close> is the
  round handed over by the menu (none on the panorama screen).
\<close>

definition bootstrap ::
  "screen \<Rightarrow> json option \<Rightarrow> int \<Rightarrow> string option \<Rightarrow> fetched \<Rightarrow> game_state world \<Rightarrow>
   game_state world" where
  "bootstrap scr initialPrefetchedRound now session outcome w =
     (let first = initial_state initialPrefetchedRound in
      case restorePersistedGameState scr (highScore first) now w of
        (True, w1) \<Rightarrow>
          (case scr of
             Game \<Rightarrow> w1\<lparr>ui := snd (prefetchNextRound_begin ((ui w1)\<lparr>loading := False\<rparr>))\<rparr>
           | Pano \<Rightarrow> w1\<lparr>ui := snd (prefetchNextRound_begin (ui w1))\<rparr>)
      | (False, w1) \<Rightarrow>
          initializeGameSession scr first session outcome (clearPersistedGameState scr w1))"

section \<open>The AI duel screen\<close>

text \<open>
  The state variables and the ref of \<^verbatim>\<open>AiDuel\<close>. The rounds, scores, status, result and
  history are values of the AI duel service, whose types are not among the sources; the
  screen stores and restores them as they come. \<open>prefetchedRoundUrl\<close> is the address
  of the picture the menu handed over, fixed for the life of the screen. The screen has
  no \<^verbatim>\<open>skipPersistRef\<close>.
\<close>

record duel_state =
  duel_loading :: bool
  submitting :: bool
  errorMessage :: string
  matchId :: "string option"
  currentRound :: "json option"
  queuedRound :: "json option"
  totalRounds :: int
  scores :: json
  status :: json
  duel_guess :: string
  latestResult :: "json option"
  history :: "json list"
  duel_zoomImage :: bool
  prefetchedImageUrl :: "json option"
  prefetchedRoundUrl :: "string option"
  duel_lastStateRef :: "json option"

definition DEFAULT_SCORES :: json where
  "DEFAULT_SCORES = JObj [(''player'', JNum 0), (''ai'', JNum 0)]"

definition STATE_STORAGE_KEY :: string where
  "STATE_STORAGE_KEY = ''geofinder.aiDuelState.v1''"


definition duel_initial_state :: "string option \<Rightarrow> duel_state" where
  "duel_initial_state url =
     \<lparr>duel_loading = True, submitting = False, errorMessage = [], matchId = None,
      currentRound = None, queuedRound = None, totalRounds = 0, scores = DEFAULT_SCORES,
      status = JStr ''in-progress'', duel_guess = [], latestResult = None, history = [],
      duel_zoomImage = False, prefetchedImageUrl = map_option JStr url,
      prefetchedRoundUrl = url, duel_lastStateRef = None\<rparr>"

definition resetState :: "duel_state \<Rightarrow> duel_state" where
  "resetState s = s
     \<lparr>duel_guess := [], scores := DEFAULT_SCORES, queuedRound := None, latestResult := None,
      history := [], status := JStr ''in-progress'', errorMessage := [],
      currentRound := None, matchId := None\<rparr>"

definition duel_snapshot_object :: "duel_state \<Rightarrow> json" where
  "duel_snapshot_object s = JObj
     [(''matchId'', json_of_string_opt (matchId s)),
      (''currentRound'', json_of_nullable (currentRound s)),
      (''queuedRound'', json_of_nullable (queuedRound s)),
      (''totalRounds'', JNum (of_int (totalRounds s))),
      (''scores'', scores s),
      (''status'', status s),
      (''guess'', JStr (duel_guess s)),
      (''latestResult'', json_of_nullable (latestResult s)),
      (''history'', JArr (history s)),
      (''prefetchedImageUrl'', json_of_nullable (prefetchedImageUrl s)),
      (''prefetchedRoundUrl'', json_of_string_opt (prefetchedRoundUrl s)),
      (''errorMessage'', JStr (errorMessage s))]"

definition duel_storeLastState :: "duel_state \<Rightarrow> duel_state" where
  "duel_storeLastState s = s\<lparr>duel_lastStateRef := Some (duel_snapshot_object s)\<rparr>"

text \<open>
  \<^verbatim>\<open>persistAiDuelState\<close>: the key is removed when there is no snapshot or when its
  \<^verbatim>\<open>matchId\<close>, \<^verbatim>\<open>prefetchedImageUrl\<close> and \<^verbatim>\<open>currentRound\<close> are all falsy.
\<close>

definition persistAiDuelState :: "int \<Rightarrow> duel_state world \<Rightarrow> duel_state world" where
  "persistAiDuelState now w =
     (case duel_lastStateRef (ui w) of
        None \<Rightarrow> w\<lparr>disk := removeItem STATE_STORAGE_KEY (disk w)\<rparr>
      | Some snapshot \<Rightarrow>
          if \<not> truthy (jget snapshot ''matchId'')
             \<and> \<not> truthy (jget snapshot ''prefetchedImageUrl'')
             \<and> \<not> truthy (jget snapshot ''currentRound'')
          then w\<lparr>disk := removeItem STATE_STORAGE_KEY (disk w)\<rparr>
          else w\<lparr>disk := setItem STATE_STORAGE_KEY
                          (JSON_stringify (with_savedAt snapshot now)) (disk w)\<rparr>)"

definition clearPersistedAiDuelState :: "duel_state world \<Rightarrow> duel_state world" where
  "clearPersistedAiDuelState w = w\<lparr>disk := removeItem STATE_STORAGE_KEY (disk w)\<rparr>"

text \<open>\<^verbatim>\<open>v ?? d\<close> for a default that is a value.\<close>

fun nullish_or :: "json \<Rightarrow> json \<Rightarrow> json" where
  "nullish_or JNull d = d"
| "nullish_or v d = v"




definition matchFailedText :: string where
  "matchFailedText = ''Couldn'' @ [CHR 0x27] @
     ''t start a match right now. Double-check your network connection and try again.''"

text \<open>
  \<^verbatim>\<open>bootstrap\<close> of the duel screen. \<open>response\<close> is what \<^verbatim>\<open>startAiMatch\<close> returns,
  \<open>None\<close> when it fails; a response without a match identifier or a round is thrown
  and caught like a failure. The number of rounds of a response is a whole number, or
  absent (\<^verbatim>\<open>response.totalRounds ?? 0\<close>).
\<close>

definition duel_bootstrap :: "json option \<Rightarrow> duel_state world \<Rightarrow> duel_state world" where
  "duel_bootstrap response w =
     (let w1 = clearPersistedAiDuelState (w\<lparr>ui := (ui w)\<lparr>duel_loading := True\<rparr>\<rparr>);
          u2 = resetState (ui w1);
          r = json_of_nullable response;
          u3 = (if \<not> truthy (jget r ''matchId'') \<or> \<not> truthy (jget r ''round'')
                then u2\<lparr>errorMessage := matchFailedText\<rparr>
                else u2\<lparr>matchId := string_or (jget r ''matchId'') None Some,
                        currentRound := Some (jget r ''round''),
                        totalRounds := finite_or (jget r ''totalRounds'') 0 id,
                        scores := (if truthy (jget r ''scores'') then jget r ''scores''
                                   else DEFAULT_SCORES),
                        status := nullish_or (jget r ''status'') (JStr ''in-progress''),
                        prefetchedImageUrl := None\<rparr>)
      in w1\<lparr>ui := u3\<lparr>duel_loading := False\<rparr>\<rparr>)"


text \<open>The cleanup of the mount effect: \<^verbatim>\<open>persistAiDuelState()\<close>, whatever led to it.\<close>

definition duel_unmount_cleanup :: "int \<Rightarrow> duel_state world \<Rightarrow> duel_state world" where
  "duel_unmount_cleanup now w = persistAiDuelState now w"

definition duel_handleAppStateChange ::
  "int \<Rightarrow> AppStateStatus \<Rightarrow> duel_state world \<Rightarrow> duel_state world" where
  "duel_handleAppStateChange now nextState w =
     (if nextState = Background \<or> nextState = Inactive
      then w\<lparr>disk := writeSnapshot STATE_STORAGE_KEY (duel_lastStateRef (ui w)) now (disk w)\<rparr>
      else w)"

definition handleReturnToMenu :: "duel_state world \<Rightarrow> duel_state world" where
  "handleReturnToMenu w =
     (let w1 = clearPersistedAiDuelState w
      in w1\<lparr>effects := effects w1 @ [Navigate ''MainMenu'']\<rparr>)"

definition handleRematch :: "json option \<Rightarrow> duel_state world \<Rightarrow> duel_state world" where
  "handleRematch response w = duel_bootstrap response (clearPersistedAiDuelState w)"

section \<open>Reading the effects\<close>

text \<open>The calls of the score submitter among the effects.\<close>

fun is_submission :: "effect \<Rightarrow> bool" where
  "is_submission (SubmitScore sid score correct rounds played) = True"
| "is_submission _ = False"

section \<open>Example states\<close>

text \<open>
  A round in play with score 5 and high score 4, a world around a state with empty
  storage, and a stand-in for \<^verbatim>\<open>matchGuess\<close> that accepts the country's name or code
  as they are stored. They serve the examples below.
\<close>

definition example_round :: game_state where
  "example_round = (initial_state None)
     \<lparr>imageUrl := Some ''https://images.example/1.jpg'', country := Some ''france'',
      countryCode := Some ''FR'', displayName := Some ''France'', coord := Some (488566 / 10000, 23522 / 10000),
      gameSessionId := Some ''session-1'', guess := ''france'', currentScore := 5,
      highScore := Finite 4\<rparr>"

definition example_world :: "'u \<Rightarrow> 'u world" where
  "example_world s = \<lparr>ui = s, disk = Map.empty, effects = []\<rparr>"

definition exactMatch :: "string \<Rightarrow> string option \<Rightarrow> string option \<Rightarrow> bool" where
  "exactMatch g c cc = (Some g = c \<or> Some g = cc)"

text \<open>A round as the producer delivers it, for a picture at the given address.\<close>

definition example_payload :: "string \<Rightarrow> json" where
  "example_payload url = JObj
     [(''image'', JObj [(''url'', JStr url),
                        (''coord'', JObj [(''lat'', JNum (488566 / 10000)), (''lon'', JNum (23522 / 10000))]),
                        (''contributor'', JNull)]),
      (''countryInfo'', JObj [(''country'', JStr ''france''), (''countryCode'', JStr ''FR''),
                              (''displayName'', JStr ''France'')])]"

text \<open>
  The duel screen right after mounting with a picture handed over by the menu, before a
  match exists, once the state effect has run.
\<close>

definition duel_example :: duel_state where
  "duel_example = duel_storeLastState (duel_initial_state (Some ''https://images.example/1.jpg''))"

text \<open>A stored text that is not JSON, such as a snapshot cut short while it was written.\<close>

definition garbled_text :: stored_text where
  "garbled_text = \<lparr>json_parse = None, parse_int = None, empty_text = False\<rparr>"

text \<open>
  The example round persisted at time 1000 (in milliseconds) on \<^verbatim>\<open>GameScreen\<close>, and a
  freshly mounted screen over the storage that this leaves behind.
\<close>

definition saved_world :: "game_state world" where
  "saved_world = persistGameState Game 1000 (example_world (storeLastState Game example_round))"

definition remounted_world :: "game_state world" where
  "remounted_world = \<lparr>ui = initial_state None, disk = disk saved_world, effects = []\<rparr>"


text \<open>
  A freshly mounted \<^verbatim>\<open>GameScreen\<close> over a storage whose snapshot is not JSON, and one
  between two rounds, without an image, over a storage that holds an older snapshot.
\<close>

definition garbled_world :: "game_state world" where
  "garbled_world = (example_world (initial_state None))
     \<lparr>disk := [GAME_STATE_STORAGE_KEY Game \<mapsto> garbled_text]\<rparr>"

definition idle_world :: "game_state world" where
  "idle_world = (example_world (storeLastState Game (initial_state None)))
     \<lparr>disk := [GAME_STATE_STORAGE_KEY Game \<mapsto> JSON_stringify (JObj [])]\<rparr>"

section \<open>Properties of the prefetch slot\<close>

lemma prefetch_run_append:
  "prefetch_run (es @ fs) c = prefetch_run fs (prefetch_run es c)"
  by (induction es arbitrary: c) simp_all

lemma begin_keeps_new_token:
  "fst (prefetchNextRound_begin s) = Suc (prefetchIdRef s)"
  "prefetchIdRef (snd (prefetchNextRound_begin s)) = fst (prefetchNextRound_begin s)"
  by (simp_all add: prefetchNextRound_begin_def Let_def)

lemma resume_token:
  "prefetchIdRef (prefetchNextRound_resume requestId outcome s) = prefetchIdRef s"
  by (cases outcome) simp_all

lemma stale_settle_discarded:
  "requestId \<noteq> prefetchIdRef s \<Longrightarrow> prefetchNextRound_resume requestId outcome s = s"
  by (cases outcome) simp_all

lemma current_settle_stored:
  "truthy r \<Longrightarrow> nextRound (prefetchNextRound_resume (prefetchIdRef s) (Result r) s) = Some r"
  by simp

lemma prefetch_run_kept:
  "fst (prefetch_run es (kept, s))
     = kept @ [Suc (prefetchIdRef s) ..< Suc (prefetchIdRef s + issues es)]
   \<and> prefetchIdRef (snd (prefetch_run es (kept, s))) = prefetchIdRef s + issues es"
proof (induction es arbitrary: kept s)
  case Nil
  then show ?case by simp
next
  case (Cons e es)
  show ?case
  proof (cases e)
    case Issue
    obtain requestId s1 where b: "prefetchNextRound_begin s = (requestId, s1)"
      by (cases "prefetchNextRound_begin s")
    with begin_keeps_new_token [of s]
    have r: "requestId = Suc (prefetchIdRef s)" "prefetchIdRef s1 = Suc (prefetchIdRef s)"
      by simp_all
    have "[Suc (prefetchIdRef s) ..< Suc (prefetchIdRef s + Suc (issues es))]
            = Suc (prefetchIdRef s) # [Suc (Suc (prefetchIdRef s)) ..< Suc (Suc (prefetchIdRef s) + issues es)]"
      by (simp add: upt_conv_Cons)
    with Cons.IH [of "kept @ [requestId]" s1] Issue b r show ?thesis by simp
  next
    case (Settle k outcome)
    with Cons.IH [of kept "prefetchNextRound_resume (kept ! k) outcome s"] Cons.IH [of kept s]
    show ?thesis by (simp add: resume_token)
  qed
qed

lemma stale_call_settles_in_vain:
  assumes "Suc k \<noteq> issues es"
  shows "prefetch_run (es @ [Settle k outcome]) ([], s) = prefetch_run es ([], s)"
proof -
  obtain kept s1 where c: "prefetch_run es ([], s) = (kept, s1)"
    by (cases "prefetch_run es ([], s)")
  with prefetch_run_kept [of es "[]" s]
  have k: "kept = [Suc (prefetchIdRef s) ..< Suc (prefetchIdRef s + issues es)]"
    and t: "prefetchIdRef s1 = prefetchIdRef s + issues es" by simp_all
  show ?thesis
  proof (cases "k < length kept")
    case True
    with k have "kept ! k = Suc (prefetchIdRef s) + k" by (simp del: upt_Suc)
    with assms t have "kept ! k \<noteq> prefetchIdRef s1" by simp
    then show ?thesis
      using True c by (simp add: prefetch_run_append stale_settle_discarded)
  next
    case False
    then show ?thesis using c by (simp add: prefetch_run_append)
  qed
qed

lemma latest_call_fills_slot:
  assumes "issues es = Suc k" and "truthy r"
  shows "nextRound (snd (prefetch_run (es @ [Settle k (Result r)]) ([], s))) = Some r"
proof -
  obtain kept s1 where c: "prefetch_run es ([], s) = (kept, s1)"
    by (cases "prefetch_run es ([], s)")
  with prefetch_run_kept [of es "[]" s]
  have k: "kept = [Suc (prefetchIdRef s) ..< Suc (prefetchIdRef s + issues es)]"
    and t: "prefetchIdRef s1 = prefetchIdRef s + issues es" by simp_all
  from k assms(1) have "k < length kept" "kept ! k = prefetchIdRef s1"
    using t by (simp_all del: upt_Suc)
  then show ?thesis
    using c assms(2) by (simp add: prefetch_run_append)
qed

lemma lone_call_fills_slot:
  "truthy r \<Longrightarrow> nextRound (prefetchNextRound (Result r) s) = Some r"
  by (simp add: prefetchNextRound_def prefetchNextRound_begin_def Let_def)

lemma two_requests_late_first:
  "truthy b \<Longrightarrow>
     nextRound (snd (prefetch_run [Issue, Issue, Settle 1 (Result b), Settle 0 a] ([], s))) = Some b"
  by (cases a) (simp_all add: prefetchNextRound_begin_def Let_def)

lemma two_requests_in_order:
  "truthy b \<Longrightarrow>
     nextRound (snd (prefetch_run [Issue, Issue, Settle 0 a, Settle 1 (Result b)] ([], s))) = Some b"
  by (cases a) (simp_all add: prefetchNextRound_begin_def Let_def)

text \<open>
  C1. A call of \<^verbatim>\<open>prefetchNextRound\<close> increments the token and keeps the new value as
  its \<^verbatim>\<open>requestId\<close>. After any history \<open>es\<close> on a screen, the calls made hold the
  successive tokens, each a different one, and the token of the screen is the one the
  most recent call holds. When a call other than the most recent settles, the whole
  state stays as it was; when the most recent call settles with a round, the round is in
  the slot. So when call A and then call B are made and B delivers a round, the slot
  ends with B's round whether A settles before or after B, and what A delivers after B
  changes nothing.
\<close>

theorem prefetch_latest_request_wins:
  "fst (prefetchNextRound_begin s) = prefetchIdRef s + 1
   \<and> prefetchIdRef (snd (prefetchNextRound_begin s)) = fst (prefetchNextRound_begin s)
   \<and> fst (prefetch_run es ([], s)) = [Suc (prefetchIdRef s) ..< Suc (prefetchIdRef s + issues es)]
   \<and> prefetchIdRef (snd (prefetch_run es ([], s))) = prefetchIdRef s + issues es
   \<and> (Suc k \<noteq> issues es \<longrightarrow>
        prefetch_run (es @ [Settle k outcome]) ([], s) = prefetch_run es ([], s))
   \<and> (issues es = Suc k \<and> truthy r \<longrightarrow>
        nextRound (snd (prefetch_run (es @ [Settle k (Result r)]) ([], s))) = Some r)
   \<and> (truthy b \<longrightarrow>
        nextRound (snd (prefetch_run [Issue, Issue, Settle 1 (Result b), Settle 0 a] ([], s)))
          = Some b
        \<and> prefetch_run [Issue, Issue, Settle 1 (Result b), Settle 0 a] ([], s)
          = prefetch_run [Issue, Issue, Settle 1 (Result b)] ([], s)
        \<and> nextRound (snd (prefetch_run [Issue, Issue, Settle 0 a, Settle 1 (Result b)] ([], s)))
          = Some b)"
proof (intro conjI impI)
  show "fst (prefetchNextRound_begin s) = prefetchIdRef s + 1"
    by (simp add: begin_keeps_new_token)
  show "prefetchIdRef (snd (prefetchNextRound_begin s)) = fst (prefetchNextRound_begin s)"
    by (rule begin_keeps_new_token)
  show "fst (prefetch_run es ([], s)) = [Suc (prefetchIdRef s) ..< Suc (prefetchIdRef s + issues es)]"
    using prefetch_run_kept [of es "[]" s] by simp
  show "prefetchIdRef (snd (prefetch_run es ([], s))) = prefetchIdRef s + issues es"
    using prefetch_run_kept [of es "[]" s] by simp
  show "prefetch_run (es @ [Settle k outcome]) ([], s) = prefetch_run es ([], s)"
    if "Suc k \<noteq> issues es"
    using that by (rule stale_call_settles_in_vain)
  show "nextRound (snd (prefetch_run (es @ [Settle k (Result r)]) ([], s))) = Some r"
    if "issues es = Suc k \<and> truthy r"
    using that latest_call_fills_slot by blast
  show "nextRound (snd (prefetch_run [Issue, Issue, Settle 1 (Result b), Settle 0 a] ([], s)))
          = Some b" if "truthy b"
    using that by (rule two_requests_late_first)
  show "prefetch_run [Issue, Issue, Settle 1 (Result b), Settle 0 a] ([], s)
          = prefetch_run [Issue, Issue, Settle 1 (Result b)] ([], s)"
    using stale_call_settles_in_vain [of 0 "[Issue, Issue, Settle 1 (Result b)]" a s] by simp
  show "nextRound (snd (prefetch_run [Issue, Issue, Settle 0 a, Settle 1 (Result b)] ([], s)))
          = Some b" if "truthy b"
    using that by (rule two_requests_in_order)
qed

text \<open>
  On a fresh screen: call 0 and call 1 are made and hold the tokens 1 and 2, call 1
  delivers its round, then call 0 delivers another. The late round changes nothing; the
  slot holds the round of call 1.
\<close>

theorem prefetch_latest_request_wins_witness:
  "Suc 0 \<noteq> issues [Issue, Issue, Settle 1 (Result (example_payload ''B''))]
   \<and> issues [Issue, Issue] = Suc 1
   \<and> truthy (example_payload ''B'')
   \<and> fst (prefetch_run [Issue, Issue] ([], initial_state None)) = [1, 2]
   \<and> prefetch_run ([Issue, Issue, Settle 1 (Result (example_payload ''B''))]
                    @ [Settle 0 (Result (example_payload ''A''))]) ([], initial_state None)
     = prefetch_run [Issue, Issue, Settle 1 (Result (example_payload ''B''))]
         ([], initial_state None)
   \<and> nextRound (snd (prefetch_run ([Issue, Issue] @ [Settle 1 (Result (example_payload ''B''))])
        ([], initial_state None)))
     = Some (example_payload ''B'')
   \<and> nextRound (snd (prefetch_run
        [Issue, Issue, Settle 1 (Result (example_payload ''B'')),
         Settle 0 (Result (example_payload ''A''))] ([], initial_state None)))
     = Some (example_payload ''B'')"
proof -
  let ?es = "[Issue, Issue, Settle 1 (Result (example_payload ''B''))]"
  have ne: "Suc 0 \<noteq> issues ?es" and two: "issues [Issue, Issue] = Suc 1"
    by simp_all
  have tb: "truthy (example_payload ''B'')"
    by (simp add: example_payload_def)
  have zero: "prefetchIdRef (initial_state None) = 0"
    by (simp add: initial_state_def)
  note t1 = prefetch_latest_request_wins
              [of "initial_state None" ?es 0 "Result (example_payload ''A'')" _
                  "example_payload ''B''" "Result (example_payload ''A'')"]
  note t2 = prefetch_latest_request_wins
              [of "initial_state None" "[Issue, Issue]" 1 _ "example_payload ''B''"
                  "example_payload ''B''" "Result (example_payload ''A'')"]
  from t1 ne have stale: "prefetch_run (?es @ [Settle 0 (Result (example_payload ''A''))])
          ([], initial_state None) = prefetch_run ?es ([], initial_state None)"
    by blast
  from t2 have "fst (prefetch_run [Issue, Issue] ([], initial_state None))
          = [Suc (prefetchIdRef (initial_state None))
               ..< Suc (prefetchIdRef (initial_state None) + issues [Issue, Issue])]"
    by blast
  then have kept: "fst (prefetch_run [Issue, Issue] ([], initial_state None)) = [1, 2]"
    by (simp add: zero upt_conv_Cons)
  from t2 two tb have filled: "nextRound (snd (prefetch_run
          ([Issue, Issue] @ [Settle 1 (Result (example_payload ''B''))])
          ([], initial_state None))) = Some (example_payload ''B'')"
    by blast
  from t1 tb have late: "nextRound (snd (prefetch_run
        [Issue, Issue, Settle 1 (Result (example_payload ''B'')),
         Settle 0 (Result (example_payload ''A''))] ([], initial_state None)))
     = Some (example_payload ''B'')"
    by blast
  from ne two tb kept stale filled late show ?thesis by blast
qed

section \<open>Properties of scoring\<close>

lemma submitGuess_blank:
  "trim (guess (ui w)) = [] \<Longrightarrow> submitGuess scr nc mg w = w"
  by (simp add: submitGuess_def)

lemma completeRound_frame:
  "currentScore (completeRound u) = currentScore u"
  "highScore (completeRound u) = highScore u"
  "gameOver (completeRound u) = gameOver u"
  "guessCount (completeRound u) = guessCount u"
  by (simp_all add: completeRound_def scheduleSummaryModal_def Let_def)

lemma submitGuess_right:
  assumes "trim (guess (ui w)) \<noteq> []"
    and "mg (nc (guess (ui w))) (country (ui w)) (countryCode (ui w))"
  shows "currentScore (ui (submitGuess scr nc mg w))
           = currentScore (ui w) + pointsEarned (guessCount (ui w) + 1)"
    and "gameOver (ui (submitGuess scr nc mg w))"
    and "guessCount (ui (submitGuess scr nc mg w)) = guessCount (ui w) + 1"
    and "highScore (ui (submitGuess scr nc mg w))
           = (if exceeds (currentScore (ui w) + pointsEarned (guessCount (ui w) + 1)) (highScore (ui w))
              then Finite (currentScore (ui w) + pointsEarned (guessCount (ui w) + 1))
              else highScore (ui w))"
    and "disk (submitGuess scr nc mg w)
           = (if exceeds (currentScore (ui w) + pointsEarned (guessCount (ui w) + 1)) (highScore (ui w))
              then (disk w)(highScoreKey scr \<mapsto>
                     toString (currentScore (ui w) + pointsEarned (guessCount (ui w) + 1)))
              else disk w)"
  using assms
  by (simp_all add: submitGuess_def guessedRight_def Let_def completeRound_frame setItem_def)

lemma submitGuess_wrong:
  assumes "trim (guess (ui w)) \<noteq> []"
    and "\<not> mg (nc (guess (ui w))) (country (ui w)) (countryCode (ui w))"
  shows "currentScore (ui (submitGuess scr nc mg w))
           = (if guessCount (ui w) + 1 \<ge> 3 \<and> isContinued (ui w)
              then currentScore (ui w) - 1 else currentScore (ui w))"
    and "gameOver (ui (submitGuess scr nc mg w))
           = (if guessCount (ui w) + 1 \<ge> 3 then True else gameOver (ui w))"
    and "guessCount (ui (submitGuess scr nc mg w)) = guessCount (ui w) + 1"
    and "highScore (ui (submitGuess scr nc mg w)) = highScore (ui w)"
    and "disk (submitGuess scr nc mg w) = disk w"
  using assms
  by (simp_all add: submitGuess_def guessedWrong_def Let_def completeRound_frame)

text \<open>
  Texts that \<^verbatim>\<open>trim\<close> leaves alone, and texts of white space only: a no-break space
  (U+00A0), an ideographic space (U+3000) and a byte order mark (U+FEFF) between spaces.
\<close>

lemma trim_examples:
  "trim ''france'' = ''france''"
  "trim ''Atlantis'' = ''Atlantis''"
  "trim ''  New Zealand '' = ''New Zealand''"
  "trim [CHR 0xC2, CHR 0xA0] = []"
  "trim [CHR 0xE3, CHR 0x80, CHR 0x80] = []"
  "trim [CHR 0x20, CHR 0xEF, CHR 0xBB, CHR 0xBF, CHR 0x09, CHR 0xE2, CHR 0x80, CHR 0xA8] = []"
  by code_simp+

lemma blank_guess_ignored:
  "guess (ui w) = [CHR 0xE3, CHR 0x80, CHR 0x80] \<or> guess (ui w) = [CHR 0xC2, CHR 0xA0] \<Longrightarrow>
     submitGuess scr nc mg w = w"
  by (auto simp: submitGuess_def trim_examples)

lemmas example_defs =
  example_world_def example_round_def initial_state_def exactMatch_def trim_examples

text \<open>
  C2, as the code has it. A correct guess ends the round and adds 3, 2 or 1 points on
  attempt 1, 2 or 3, and nothing on a later attempt; the points follow from the number
  of attempts at that moment. A wrong guess on attempt 1 or 2 leaves the score and the
  round as they are. A wrong guess on attempt 3 (or later) ends the round as a failure,
  with no change of the score, or with 1 point less when \<open>isContinued\<close> is set.
\<close>

theorem submitGuess_scoring:
  assumes "trim (guess (ui w)) \<noteq> []"
  shows "(mg (nc (guess (ui w))) (country (ui w)) (countryCode (ui w)) \<longrightarrow>
            gameOver (ui (submitGuess scr nc mg w))
            \<and> guessCount (ui (submitGuess scr nc mg w)) = guessCount (ui w) + 1
            \<and> currentScore (ui (submitGuess scr nc mg w)) = currentScore (ui w) +
                (if guessCount (ui w) + 1 = 1 then 3
                 else if guessCount (ui w) + 1 = 2 then 2
                 else if guessCount (ui w) + 1 = 3 then 1 else 0))
       \<and> (\<not> mg (nc (guess (ui w))) (country (ui w)) (countryCode (ui w))
            \<and> guessCount (ui w) + 1 < 3 \<longrightarrow>
            gameOver (ui (submitGuess scr nc mg w)) = gameOver (ui w)
            \<and> currentScore (ui (submitGuess scr nc mg w)) = currentScore (ui w))
       \<and> (\<not> mg (nc (guess (ui w))) (country (ui w)) (countryCode (ui w))
            \<and> guessCount (ui w) + 1 \<ge> 3 \<longrightarrow>
            gameOver (ui (submitGuess scr nc mg w))
            \<and> currentScore (ui (submitGuess scr nc mg w)) =
                currentScore (ui w) - (if isContinued (ui w) then 1 else 0))"
proof (intro conjI impI)
  assume right: "mg (nc (guess (ui w))) (country (ui w)) (countryCode (ui w))"
  show "gameOver (ui (submitGuess scr nc mg w))"
    using submitGuess_right(2) [where mg = mg and nc = nc, OF assms right] .
  show "guessCount (ui (submitGuess scr nc mg w)) = guessCount (ui w) + 1"
    using submitGuess_right(3) [where mg = mg and nc = nc, OF assms right] .
  show "currentScore (ui (submitGuess scr nc mg w)) = currentScore (ui w) +
          (if guessCount (ui w) + 1 = 1 then 3
           else if guessCount (ui w) + 1 = 2 then 2
           else if guessCount (ui w) + 1 = 3 then 1 else 0)"
    using submitGuess_right(1) [where mg = mg and nc = nc, OF assms right] by (simp add: pointsEarned_def)
next
  assume "\<not> mg (nc (guess (ui w))) (country (ui w)) (countryCode (ui w))
          \<and> guessCount (ui w) + 1 < 3"
  then have wrong: "\<not> mg (nc (guess (ui w))) (country (ui w)) (countryCode (ui w))"
    and early: "guessCount (ui w) + 1 < 3" by simp_all
  show "gameOver (ui (submitGuess scr nc mg w)) = gameOver (ui w)"
    using submitGuess_wrong(2) [where mg = mg and nc = nc, OF assms wrong] early by simp
  show "currentScore (ui (submitGuess scr nc mg w)) = currentScore (ui w)"
    using submitGuess_wrong(1) [where mg = mg and nc = nc, OF assms wrong] early by simp
next
  assume "\<not> mg (nc (guess (ui w))) (country (ui w)) (countryCode (ui w))
          \<and> guessCount (ui w) + 1 \<ge> 3"
  then have wrong: "\<not> mg (nc (guess (ui w))) (country (ui w)) (countryCode (ui w))"
    and last: "guessCount (ui w) + 1 \<ge> 3" by simp_all
  show "gameOver (ui (submitGuess scr nc mg w))"
    using submitGuess_wrong(2) [where mg = mg and nc = nc, OF assms wrong] last by simp
  show "currentScore (ui (submitGuess scr nc mg w)) =
          currentScore (ui w) - (if isContinued (ui w) then 1 else 0)"
    using submitGuess_wrong(1) [where mg = mg and nc = nc, OF assms wrong] last by simp
qed

theorem submitGuess_scoring_witness:
  "currentScore (ui (submitGuess Game id exactMatch
      (example_world (example_round\<lparr>guessCount := 1\<rparr>)))) = 7
   \<and> currentScore (ui (submitGuess Game id exactMatch
      (example_world (example_round\<lparr>guess := ''Atlantis'', isContinued := True\<rparr>)))) = 5
   \<and> \<not> gameOver (ui (submitGuess Game id exactMatch
      (example_world (example_round\<lparr>guess := ''Atlantis'', isContinued := True\<rparr>))))
   \<and> currentScore (ui (submitGuess Pano id exactMatch
      (example_world (example_round\<lparr>guess := ''Atlantis'', guessCount := 2,
                                      isContinued := True\<rparr>)))) = 4"
proof -
  let ?A = "example_world (example_round\<lparr>guessCount := 1\<rparr>)"
  let ?B = "example_world (example_round\<lparr>guess := ''Atlantis'', isContinued := True\<rparr>)"
  let ?C = "example_world (example_round\<lparr>guess := ''Atlantis'', guessCount := 2,
                                           isContinued := True\<rparr>)"
  have a: "trim (guess (ui ?A)) \<noteq> []"
    "exactMatch (id (guess (ui ?A))) (country (ui ?A)) (countryCode (ui ?A))"
    "guessCount (ui ?A) = 1" "currentScore (ui ?A) = 5"
    by (simp_all add: example_defs)
  have b: "trim (guess (ui ?B)) \<noteq> []"
    "\<not> exactMatch (id (guess (ui ?B))) (country (ui ?B)) (countryCode (ui ?B))"
    "guessCount (ui ?B) = 0" "currentScore (ui ?B) = 5" "\<not> gameOver (ui ?B)"
    by (simp_all add: example_defs)
  have c: "trim (guess (ui ?C)) \<noteq> []"
    "\<not> exactMatch (id (guess (ui ?C))) (country (ui ?C)) (countryCode (ui ?C))"
    "guessCount (ui ?C) = 2" "currentScore (ui ?C) = 5" "isContinued (ui ?C)"
    by (simp_all add: example_defs)
  from submitGuess_scoring [where w = ?A and mg = exactMatch and nc = id and scr = Game, OF a(1)]
  have "currentScore (ui (submitGuess Game id exactMatch ?A)) = 7"
    using a by simp
  moreover
  from submitGuess_scoring [where w = ?B and mg = exactMatch and nc = id and scr = Game, OF b(1)]
  have "currentScore (ui (submitGuess Game id exactMatch ?B)) = 5
        \<and> \<not> gameOver (ui (submitGuess Game id exactMatch ?B))"
    using b by simp
  moreover
  from submitGuess_scoring [where w = ?C and mg = exactMatch and nc = id and scr = Pano, OF c(1)]
  have "currentScore (ui (submitGuess Pano id exactMatch ?C)) = 4"
    using c by simp
  ultimately show ?thesis by blast
qed

text \<open>
  The claim C2 places the failure of a round at a 4th wrong attempt. In the code the
  third wrong attempt already ends the round and, in a continued session, takes the
  point: after it the round is over with score 4 instead of 5.
\<close>

theorem third_wrong_guess_ends_round:
  "guessCount (ui (submitGuess Game id exactMatch
      (example_world (example_round\<lparr>guess := ''Atlantis'', guessCount := 2,
                                      isContinued := True\<rparr>)))) = 3
   \<and> gameOver (ui (submitGuess Game id exactMatch
      (example_world (example_round\<lparr>guess := ''Atlantis'', guessCount := 2,
                                      isContinued := True\<rparr>))))
   \<and> currentScore (ui (submitGuess Game id exactMatch
      (example_world (example_round\<lparr>guess := ''Atlantis'', guessCount := 2,
                                      isContinued := True\<rparr>)))) = 4"
proof -
  let ?C = "example_world (example_round\<lparr>guess := ''Atlantis'', guessCount := 2,
                                           isContinued := True\<rparr>)"
  have c: "trim (guess (ui ?C)) \<noteq> []"
    "\<not> exactMatch (id (guess (ui ?C))) (country (ui ?C)) (countryCode (ui ?C))"
    "guessCount (ui ?C) = 2" "currentScore (ui ?C) = 5" "isContinued (ui ?C)"
    by (simp_all add: example_defs)
  show ?thesis
    using submitGuess_wrong(1,2,3) [where w = ?C and mg = exactMatch and nc = id and scr = Game,
            OF c(1) c(2)] c
    by simp
qed

section \<open>Properties of the high score\<close>

text \<open>
  C8, as the code has it. A correct guess sets the score to \<open>newScore\<close>; it replaces
  the high score, in the state and under the high-score key, exactly when \<open>newScore\<close>
  exceeds the high score, and leaves both as they were otherwise. A wrong guess never
  touches the high score or storage.
\<close>

theorem high_score_updated_when_beaten:
  assumes "trim (guess (ui w)) \<noteq> []"
  shows "(mg (nc (guess (ui w))) (country (ui w)) (countryCode (ui w)) \<longrightarrow>
           (let newScore = currentScore (ui w) + pointsEarned (guessCount (ui w) + 1)
            in currentScore (ui (submitGuess scr nc mg w)) = newScore
               \<and> (exceeds newScore (highScore (ui w)) \<longrightarrow>
                    highScore (ui (submitGuess scr nc mg w)) = Finite newScore
                    \<and> disk (submitGuess scr nc mg w)
                        = (disk w)(highScoreKey scr \<mapsto> toString newScore))
               \<and> (\<not> exceeds newScore (highScore (ui w)) \<longrightarrow>
                    highScore (ui (submitGuess scr nc mg w)) = highScore (ui w)
                    \<and> disk (submitGuess scr nc mg w) = disk w)))
       \<and> (\<not> mg (nc (guess (ui w))) (country (ui w)) (countryCode (ui w)) \<longrightarrow>
            highScore (ui (submitGuess scr nc mg w)) = highScore (ui w)
            \<and> disk (submitGuess scr nc mg w) = disk w)"
proof (intro conjI impI)
  assume right: "mg (nc (guess (ui w))) (country (ui w)) (countryCode (ui w))"
  note r = submitGuess_right [where mg = mg and nc = nc and scr = scr, OF assms right]
  show "let newScore = currentScore (ui w) + pointsEarned (guessCount (ui w) + 1)
        in currentScore (ui (submitGuess scr nc mg w)) = newScore
           \<and> (exceeds newScore (highScore (ui w)) \<longrightarrow>
                highScore (ui (submitGuess scr nc mg w)) = Finite newScore
                \<and> disk (submitGuess scr nc mg w)
                    = (disk w)(highScoreKey scr \<mapsto> toString newScore))
           \<and> (\<not> exceeds newScore (highScore (ui w)) \<longrightarrow>
                highScore (ui (submitGuess scr nc mg w)) = highScore (ui w)
                \<and> disk (submitGuess scr nc mg w) = disk w)"
    unfolding Let_def using r(1) r(4) r(5) by simp
next
  assume wrong: "\<not> mg (nc (guess (ui w))) (country (ui w)) (countryCode (ui w))"
  note r = submitGuess_wrong [where mg = mg and nc = nc and scr = scr, OF assms wrong]
  show "highScore (ui (submitGuess scr nc mg w)) = highScore (ui w)" by (rule r(4))
  show "disk (submitGuess scr nc mg w) = disk w" by (rule r(5))
qed

text \<open>
  The example of the specification: from score 5 and high score 4 a correct first guess
  gives score 8 and high score 8, stored at once; and from high score 8 the same guess
  gives score 8 and leaves the high score and storage alone.
\<close>

theorem high_score_updated_when_beaten_witness:
  "currentScore (ui (submitGuess Game id exactMatch (example_world example_round))) = 8
   \<and> highScore (ui (submitGuess Game id exactMatch (example_world example_round))) = Finite 8
   \<and> disk (submitGuess Game id exactMatch (example_world example_round)) ''highScore''
       = Some (toString 8)
   \<and> currentScore (ui (submitGuess Game id exactMatch
        (example_world (example_round\<lparr>highScore := Finite 8\<rparr>)))) = 8
   \<and> highScore (ui (submitGuess Game id exactMatch
        (example_world (example_round\<lparr>highScore := Finite 8\<rparr>)))) = Finite 8
   \<and> disk (submitGuess Game id exactMatch
        (example_world (example_round\<lparr>highScore := Finite 8\<rparr>))) ''highScore'' = None
   \<and> highScore (ui (submitGuess Game id exactMatch
        (example_world (example_round\<lparr>guess := ''Atlantis'', guessCount := 2\<rparr>)))) = Finite 4"
proof -
  let ?A = "example_world example_round"
  let ?B = "example_world (example_round\<lparr>highScore := Finite 8\<rparr>)"
  let ?C = "example_world (example_round\<lparr>guess := ''Atlantis'', guessCount := 2\<rparr>)"
  have a: "trim (guess (ui ?A)) \<noteq> []"
    "exactMatch (id (guess (ui ?A))) (country (ui ?A)) (countryCode (ui ?A))"
    "guessCount (ui ?A) = 0" "currentScore (ui ?A) = 5" "highScore (ui ?A) = Finite 4"
    "disk ?A = Map.empty"
    by (simp_all add: example_defs)
  have b: "trim (guess (ui ?B)) \<noteq> []"
    "exactMatch (id (guess (ui ?B))) (country (ui ?B)) (countryCode (ui ?B))"
    "guessCount (ui ?B) = 0" "currentScore (ui ?B) = 5" "highScore (ui ?B) = Finite 8"
    "disk ?B = Map.empty"
    by (simp_all add: example_defs)
  have c: "trim (guess (ui ?C)) \<noteq> []"
    "\<not> exactMatch (id (guess (ui ?C))) (country (ui ?C)) (countryCode (ui ?C))"
    "highScore (ui ?C) = Finite 4"
    by (simp_all add: example_defs)
  from high_score_updated_when_beaten
         [where w = ?A and mg = exactMatch and nc = id and scr = Game, OF a(1)]
  have "currentScore (ui (submitGuess Game id exactMatch ?A)) = 8
        \<and> highScore (ui (submitGuess Game id exactMatch ?A)) = Finite 8
        \<and> disk (submitGuess Game id exactMatch ?A) ''highScore'' = Some (toString 8)"
    using a by (simp add: pointsEarned_def Let_def)
  moreover
  from high_score_updated_when_beaten
         [where w = ?B and mg = exactMatch and nc = id and scr = Game, OF b(1)]
  have "currentScore (ui (submitGuess Game id exactMatch ?B)) = 8
        \<and> highScore (ui (submitGuess Game id exactMatch ?B)) = Finite 8
        \<and> disk (submitGuess Game id exactMatch ?B) ''highScore'' = None"
    using b by (simp add: pointsEarned_def Let_def)
  moreover
  from high_score_updated_when_beaten
         [where w = ?C and mg = exactMatch and nc = id and scr = Game, OF c(1)]
  have "highScore (ui (submitGuess Game id exactMatch ?C)) = Finite 4"
    using c by simp
  ultimately show ?thesis by blast
qed

text \<open>
  The claim C8 ties the update to every evaluation of a guess. A wrong first guess from
  score 5 and high score 4 leaves the score at 5, above the high score, and the high
  score is not updated, in the state or in storage.
\<close>

theorem wrong_guess_keeps_high_score:
  "currentScore (ui (submitGuess Game id exactMatch
      (example_world (example_round\<lparr>guess := ''Atlantis''\<rparr>)))) = 5
   \<and> exceeds (currentScore (ui (submitGuess Game id exactMatch
        (example_world (example_round\<lparr>guess := ''Atlantis''\<rparr>)))))
       (highScore (ui (example_world (example_round\<lparr>guess := ''Atlantis''\<rparr>))))
   \<and> highScore (ui (submitGuess Game id exactMatch
        (example_world (example_round\<lparr>guess := ''Atlantis''\<rparr>)))) = Finite 4
   \<and> disk (submitGuess Game id exactMatch
        (example_world (example_round\<lparr>guess := ''Atlantis''\<rparr>))) ''highScore'' = None"
proof -
  let ?C = "example_world (example_round\<lparr>guess := ''Atlantis''\<rparr>)"
  have c: "trim (guess (ui ?C)) \<noteq> []"
    "\<not> exactMatch (id (guess (ui ?C))) (country (ui ?C)) (countryCode (ui ?C))"
    "guessCount (ui ?C) = 0" "currentScore (ui ?C) = 5" "highScore (ui ?C) = Finite 4"
    "disk ?C = Map.empty"
    by (simp_all add: example_defs)
  show ?thesis
    using submitGuess_wrong(1,4,5) [where w = ?C and mg = exactMatch and nc = id and scr = Game,
            OF c(1) c(2)] c
    by simp
qed

section \<open>Properties of leaving a session\<close>

lemma storage_keys_differ:
  "highScoreKey scr \<noteq> GAME_STATE_STORAGE_KEY scr'"
  "GAME_STATE_STORAGE_KEY scr' \<noteq> highScoreKey scr"
  by (cases scr; cases scr'; simp)+

lemma handleReturnToMainMenu_result:
  "skipPersistRef (ui (handleReturnToMainMenu scr submitted w))"
  "disk (handleReturnToMainMenu scr submitted w) = (disk w)(GAME_STATE_STORAGE_KEY scr := None)"
  by (simp_all add: handleReturnToMainMenu_def Let_def submitScore_def alert_def
        clearPersistedGameState_def removeItem_def clearSummaryTimeout_def cancelSummaryModal_def)

lemma suppressed_handleAppStateChange:
  assumes "skipPersistRef (ui v)"
  shows "disk (handleAppStateChange scr now nextState v) = disk v"
    and "skipPersistRef (ui (handleAppStateChange scr now nextState v))"
  using assms
  by (cases scr; simp add: Let_def clearSummaryTimeout_def cancelSummaryModal_def)+

lemma suppressed_unmount_cleanup:
  assumes "skipPersistRef (ui v)"
  shows "disk (unmount_cleanup scr now v) = disk v"
    and "\<not> skipPersistRef (ui (unmount_cleanup scr now v))"
  using assms
  by (cases scr; simp add: Let_def clearSummaryTimeout_def cancelSummaryModal_def)+

lemma suppressed_app_events:
  assumes "skipPersistRef (ui v)"
  shows "disk (foldl (\<lambda>x (t, st). handleAppStateChange scr t st x) v evs) = disk v
         \<and> skipPersistRef (ui (foldl (\<lambda>x (t, st). handleAppStateChange scr t st x) v evs))"
  using assms
proof (induction evs arbitrary: v)
  case Nil
  then show ?case by simp
next
  case (Cons e evs)
  obtain t st where e: "e = (t, st)" by (cases e)
  from Cons.prems have "skipPersistRef (ui (handleAppStateChange scr t st v))"
    and "disk (handleAppStateChange scr t st v) = disk v"
    by (simp_all add: suppressed_handleAppStateChange)
  with Cons.IH [of "handleAppStateChange scr t st v"] e show ?case by simp
qed

text \<open>
  C3, as the code has it, on the single-player and the panorama screen.
  \<^verbatim>\<open>handleReturnToMainMenu\<close> sets the flag and removes the snapshot. While the flag is
  set, a change of the app state writes nothing and leaves the flag set, and the unmount
  cleanup writes nothing and resets the flag. So after the explicit exit, any changes of
  the app state followed by the unmount leave no snapshot in storage and the flag reset.
\<close>

theorem suppressed_exit_writes_no_snapshot:
  "skipPersistRef (ui (handleReturnToMainMenu scr submitted w))
   \<and> disk (handleReturnToMainMenu scr submitted w) = (disk w)(GAME_STATE_STORAGE_KEY scr := None)
   \<and> (skipPersistRef (ui v) \<longrightarrow>
        disk (handleAppStateChange scr now nextState v) = disk v
        \<and> skipPersistRef (ui (handleAppStateChange scr now nextState v))
        \<and> disk (unmount_cleanup scr now v) = disk v
        \<and> \<not> skipPersistRef (ui (unmount_cleanup scr now v)))
   \<and> disk (unmount_cleanup scr now
        (foldl (\<lambda>x (t, st). handleAppStateChange scr t st x)
           (handleReturnToMainMenu scr submitted w) evs))
       = (disk w)(GAME_STATE_STORAGE_KEY scr := None)
   \<and> \<not> skipPersistRef (ui (unmount_cleanup scr now
        (foldl (\<lambda>x (t, st). handleAppStateChange scr t st x)
           (handleReturnToMainMenu scr submitted w) evs)))"
proof -
  let ?w1 = "handleReturnToMainMenu scr submitted w"
  let ?w2 = "foldl (\<lambda>x (t, st). handleAppStateChange scr t st x) ?w1 evs"
  have w2: "disk ?w2 = disk ?w1" "skipPersistRef (ui ?w2)"
    using suppressed_app_events [OF handleReturnToMainMenu_result(1)] by blast+
  have "disk (unmount_cleanup scr now ?w2) = (disk w)(GAME_STATE_STORAGE_KEY scr := None)"
    using suppressed_unmount_cleanup(1) [OF w2(2)] w2(1) handleReturnToMainMenu_result(2)
    by simp
  moreover have "\<not> skipPersistRef (ui (unmount_cleanup scr now ?w2))"
    using suppressed_unmount_cleanup(2) [OF w2(2)] .
  ultimately show ?thesis
    using handleReturnToMainMenu_result suppressed_handleAppStateChange
      suppressed_unmount_cleanup
    by blast
qed

theorem suppressed_exit_writes_no_snapshot_witness:
  "skipPersistRef (ui (handleReturnToMainMenu Game True
      (example_world (storeLastState Game example_round))))
   \<and> disk (handleAppStateChange Game 1000 Background (handleReturnToMainMenu Game True
        (example_world (storeLastState Game example_round)))) (GAME_STATE_STORAGE_KEY Game) = None
   \<and> disk (unmount_cleanup Game 2000 (handleReturnToMainMenu Game True
        (example_world (storeLastState Game example_round)))) (GAME_STATE_STORAGE_KEY Game) = None
   \<and> \<not> skipPersistRef (ui (unmount_cleanup Game 2000 (handleReturnToMainMenu Game True
        (example_world (storeLastState Game example_round)))))
   \<and> disk (unmount_cleanup Game 2000 (example_world (storeLastState Game example_round)))
        (GAME_STATE_STORAGE_KEY Game) \<noteq> None"
proof -
  let ?w = "example_world (storeLastState Game example_round)"
  let ?v = "handleReturnToMainMenu Game True ?w"
  have v: "skipPersistRef (ui ?v)" "disk ?v = Map.empty"
    by (simp_all add: handleReturnToMainMenu_result example_world_def)
  have "disk (unmount_cleanup Game 2000 ?w) (GAME_STATE_STORAGE_KEY Game) \<noteq> None"
    by (simp add: example_world_def storeLastState_def snapshot_object_def example_round_def
          initial_state_def persistGameState_def setItem_def Let_def
          clearSummaryTimeout_def cancelSummaryModal_def)
  then show ?thesis
    using suppressed_exit_writes_no_snapshot
            [where scr = Game and submitted = True and w = ?w and v = ?v and now = 1000
               and nextState = Background]
          suppressed_exit_writes_no_snapshot
            [where scr = Game and submitted = True and w = ?w and v = ?v and now = 2000]
          v
    by simp
qed

text \<open>
  The claim C3 has the flag reset once it has been checked. A change of the app state
  checks the flag and leaves it set: after the explicit exit and a move to the
  background the flag is still set.
\<close>

theorem background_check_keeps_flag:
  "skipPersistRef (ui (handleAppStateChange Game 1000 Background
      (handleReturnToMainMenu Game True (example_world (storeLastState Game example_round)))))"
  by (rule suppressed_handleAppStateChange(2)) (rule handleReturnToMainMenu_result(1))

text \<open>
  The duel screen has no such flag. Its \<^verbatim>\<open>handleReturnToMenu\<close> removes the snapshot and
  navigates away, and the unmount cleanup that follows persists the match again.
\<close>

lemma duel_exit_is_persisted_again:
  assumes "duel_lastStateRef (ui w) = Some snapshot" and "truthy (jget snapshot ''matchId'')"
  shows "disk (duel_unmount_cleanup now (handleReturnToMenu w)) STATE_STORAGE_KEY
           = Some (JSON_stringify (with_savedAt snapshot now))"
  using assms
  by (simp add: duel_unmount_cleanup_def handleReturnToMenu_def persistAiDuelState_def
        clearPersistedAiDuelState_def Let_def setItem_def)

section \<open>Properties of what is persisted\<close>

lemma truthy_string_opt: "truthy (json_of_string_opt x) = has_text x"
  by (cases x) simp_all

lemma snapshot_image_field:
  "jget (snapshot_object scr s) (imageField scr) = json_of_string_opt (imageUrl s)"
  by (cases scr) (simp_all add: snapshot_object_def)

lemma persistGameState_key:
  "disk (persistGameState scr now w) (GAME_STATE_STORAGE_KEY scr) = None
   \<or> (\<exists>snapshot. lastStateRef (ui w) = Some snapshot
         \<and> truthy (jget snapshot (imageField scr))
         \<and> disk (persistGameState scr now w) (GAME_STATE_STORAGE_KEY scr)
             = Some (JSON_stringify (with_savedAt snapshot now)))"
  by (cases "lastStateRef (ui w)") (simp_all add: persistGameState_def removeItem_def setItem_def)

lemma persistGameState_no_payload:
  assumes "lastStateRef (ui w) = None
           \<or> (\<exists>snapshot. lastStateRef (ui w) = Some snapshot
                 \<and> \<not> truthy (jget snapshot (imageField scr)))"
  shows "disk (persistGameState scr now w) = (disk w)(GAME_STATE_STORAGE_KEY scr := None)"
  using assms by (auto simp: persistGameState_def removeItem_def)

lemma persistGameState_writes:
  assumes "lastStateRef (ui w) = Some snapshot" and "truthy (jget snapshot (imageField scr))"
  shows "disk (persistGameState scr now w)
           = (disk w)(GAME_STATE_STORAGE_KEY scr \<mapsto> JSON_stringify (with_savedAt snapshot now))"
  using assms by (simp add: persistGameState_def setItem_def)

lemma persistGameState_ui_irrelevant:
  "lastStateRef u = lastStateRef (ui w) \<Longrightarrow>
     disk (persistGameState scr now (w\<lparr>ui := u\<rparr>)) = disk (persistGameState scr now w)"
  by (cases "lastStateRef (ui w)") (simp_all add: persistGameState_def)

lemma game_unmount_persists:
  "\<not> skipPersistRef (ui w) \<Longrightarrow>
     disk (unmount_cleanup Game now w) = disk (persistGameState Game now w)"
  by (simp add: Let_def clearSummaryTimeout_def cancelSummaryModal_def
        persistGameState_ui_irrelevant)

lemma game_background_persists:
  "\<not> skipPersistRef (ui w) \<Longrightarrow> nextState = Background \<or> nextState = Inactive \<Longrightarrow>
     disk (handleAppStateChange Game now nextState w) = disk (persistGameState Game now w)"
  by (auto simp: Let_def clearSummaryTimeout_def cancelSummaryModal_def
        persistGameState_ui_irrelevant)

lemma game_paths_otherwise_idle:
  "skipPersistRef (ui w) \<Longrightarrow> disk (unmount_cleanup Game now w) = disk w"
  "skipPersistRef (ui w) \<or> nextState = Active \<Longrightarrow>
     disk (handleAppStateChange Game now nextState w) = disk w"
  by (auto simp: Let_def clearSummaryTimeout_def cancelSummaryModal_def)

lemma persistAiDuelState_key:
  "disk (persistAiDuelState now d) STATE_STORAGE_KEY = None
   \<or> (\<exists>snapshot. duel_lastStateRef (ui d) = Some snapshot
         \<and> (truthy (jget snapshot ''matchId'') \<or> truthy (jget snapshot ''prefetchedImageUrl'')
              \<or> truthy (jget snapshot ''currentRound''))
         \<and> disk (persistAiDuelState now d) STATE_STORAGE_KEY
             = Some (JSON_stringify (with_savedAt snapshot now)))"
  by (cases "duel_lastStateRef (ui d)")
     (auto simp: persistAiDuelState_def removeItem_def setItem_def)

text \<open>
  C4, as the code has it. On \<^verbatim>\<open>GameScreen\<close> the unmount cleanup and the handler of app
  state changes leave the snapshot key as it was, or empty, or holding a snapshot whose
  \<^verbatim>\<open>imageUrl\<close> is truthy; when the flag is not set and there is no snapshot or its
  \<^verbatim>\<open>imageUrl\<close> is falsy, the unmount and a move out of the foreground remove the key.
  On the duel screen the unmount cleanup leaves its key empty or holding a snapshot in
  which one of \<^verbatim>\<open>matchId\<close>, \<^verbatim>\<open>prefetchedImageUrl\<close>, \<^verbatim>\<open>currentRound\<close> is truthy.
\<close>

theorem snapshot_without_payload_not_written:
  "(disk (unmount_cleanup Game now w) (GAME_STATE_STORAGE_KEY Game)
       = disk w (GAME_STATE_STORAGE_KEY Game)
     \<or> disk (unmount_cleanup Game now w) (GAME_STATE_STORAGE_KEY Game) = None
     \<or> (\<exists>snapshot. lastStateRef (ui w) = Some snapshot \<and> truthy (jget snapshot ''imageUrl'')
           \<and> disk (unmount_cleanup Game now w) (GAME_STATE_STORAGE_KEY Game)
               = Some (JSON_stringify (with_savedAt snapshot now))))
   \<and> (disk (handleAppStateChange Game now nextState w) (GAME_STATE_STORAGE_KEY Game)
         = disk w (GAME_STATE_STORAGE_KEY Game)
       \<or> disk (handleAppStateChange Game now nextState w) (GAME_STATE_STORAGE_KEY Game) = None
       \<or> (\<exists>snapshot. lastStateRef (ui w) = Some snapshot \<and> truthy (jget snapshot ''imageUrl'')
             \<and> disk (handleAppStateChange Game now nextState w) (GAME_STATE_STORAGE_KEY Game)
                 = Some (JSON_stringify (with_savedAt snapshot now))))
   \<and> (\<not> skipPersistRef (ui w)
        \<and> (lastStateRef (ui w) = None
             \<or> (\<exists>snapshot. lastStateRef (ui w) = Some snapshot
                   \<and> \<not> truthy (jget snapshot ''imageUrl''))) \<longrightarrow>
        disk (unmount_cleanup Game now w) = (disk w)(GAME_STATE_STORAGE_KEY Game := None)
        \<and> (nextState = Background \<or> nextState = Inactive \<longrightarrow>
             disk (handleAppStateChange Game now nextState w)
               = (disk w)(GAME_STATE_STORAGE_KEY Game := None)))
   \<and> (disk (duel_unmount_cleanup now d) STATE_STORAGE_KEY = None
       \<or> (\<exists>snapshot. duel_lastStateRef (ui d) = Some snapshot
             \<and> (truthy (jget snapshot ''matchId'') \<or> truthy (jget snapshot ''prefetchedImageUrl'')
                  \<or> truthy (jget snapshot ''currentRound''))
             \<and> disk (duel_unmount_cleanup now d) STATE_STORAGE_KEY
                 = Some (JSON_stringify (with_savedAt snapshot now))))"
proof (intro conjI)
  show "disk (unmount_cleanup Game now w) (GAME_STATE_STORAGE_KEY Game)
          = disk w (GAME_STATE_STORAGE_KEY Game)
        \<or> disk (unmount_cleanup Game now w) (GAME_STATE_STORAGE_KEY Game) = None
        \<or> (\<exists>snapshot. lastStateRef (ui w) = Some snapshot \<and> truthy (jget snapshot ''imageUrl'')
              \<and> disk (unmount_cleanup Game now w) (GAME_STATE_STORAGE_KEY Game)
                  = Some (JSON_stringify (with_savedAt snapshot now)))"
  proof (cases "skipPersistRef (ui w)")
    case True
    then show ?thesis using game_paths_otherwise_idle(1) by simp
  next
    case False
    then show ?thesis
      using persistGameState_key [of Game now w] game_unmount_persists [of w now] by auto
  qed
  show "disk (handleAppStateChange Game now nextState w) (GAME_STATE_STORAGE_KEY Game)
          = disk w (GAME_STATE_STORAGE_KEY Game)
        \<or> disk (handleAppStateChange Game now nextState w) (GAME_STATE_STORAGE_KEY Game) = None
        \<or> (\<exists>snapshot. lastStateRef (ui w) = Some snapshot \<and> truthy (jget snapshot ''imageUrl'')
              \<and> disk (handleAppStateChange Game now nextState w) (GAME_STATE_STORAGE_KEY Game)
                  = Some (JSON_stringify (with_savedAt snapshot now)))"
  proof (cases "skipPersistRef (ui w) \<or> nextState = Active")
    case True
    then show ?thesis using game_paths_otherwise_idle(2) [of w nextState now] by simp
  next
    case False
    then have "\<not> skipPersistRef (ui w)" "nextState = Background \<or> nextState = Inactive"
      by (cases nextState; simp)+
    then show ?thesis
      using persistGameState_key [of Game now w] game_background_persists [of w nextState now]
      by auto
  qed
  show "\<not> skipPersistRef (ui w)
        \<and> (lastStateRef (ui w) = None
             \<or> (\<exists>snapshot. lastStateRef (ui w) = Some snapshot
                   \<and> \<not> truthy (jget snapshot ''imageUrl''))) \<longrightarrow>
        disk (unmount_cleanup Game now w) = (disk w)(GAME_STATE_STORAGE_KEY Game := None)
        \<and> (nextState = Background \<or> nextState = Inactive \<longrightarrow>
             disk (handleAppStateChange Game now nextState w)
               = (disk w)(GAME_STATE_STORAGE_KEY Game := None))"
    using persistGameState_no_payload [of w Game now] game_unmount_persists [of w now]
      game_background_persists [of w nextState now]
    by auto
  show "disk (duel_unmount_cleanup now d) STATE_STORAGE_KEY = None
        \<or> (\<exists>snapshot. duel_lastStateRef (ui d) = Some snapshot
              \<and> (truthy (jget snapshot ''matchId'') \<or> truthy (jget snapshot ''prefetchedImageUrl'')
                   \<or> truthy (jget snapshot ''currentRound''))
              \<and> disk (duel_unmount_cleanup now d) STATE_STORAGE_KEY
                  = Some (JSON_stringify (with_savedAt snapshot now)))"
    unfolding duel_unmount_cleanup_def by (rule persistAiDuelState_key)
qed

text \<open>
  A screen between two rounds (no image yet) over a storage that still holds an older
  snapshot: the unmount and the move to the background remove the key.
\<close>

theorem snapshot_without_payload_not_written_witness:
  "disk idle_world (GAME_STATE_STORAGE_KEY Game) = Some (JSON_stringify (JObj []))
   \<and> disk (unmount_cleanup Game 2000 idle_world) (GAME_STATE_STORAGE_KEY Game) = None
   \<and> disk (handleAppStateChange Game 2000 Background idle_world) (GAME_STATE_STORAGE_KEY Game)
       = None"
proof -
  let ?w = "idle_world"
  have stored: "disk idle_world (GAME_STATE_STORAGE_KEY Game) = Some (JSON_stringify (JObj []))"
    by (simp add: idle_world_def)
  have "\<not> skipPersistRef (ui ?w)
        \<and> (lastStateRef (ui ?w) = None
             \<or> (\<exists>snapshot. lastStateRef (ui ?w) = Some snapshot
                   \<and> \<not> truthy (jget snapshot ''imageUrl'')))"
    by (simp add: idle_world_def example_world_def storeLastState_def initial_state_def
          snapshot_object_def)
  with snapshot_without_payload_not_written [where w = ?w and now = 2000 and nextState = Background]
  show ?thesis using stored by simp
qed


text \<open>
  The claim C4 counts a duel snapshot without \<^verbatim>\<open>matchId\<close> and \<^verbatim>\<open>currentRound\<close> as one
  without payload. The guard of \<^verbatim>\<open>persistAiDuelState\<close> also accepts a
  \<^verbatim>\<open>prefetchedImageUrl\<close>: a duel screen unmounted before its match exists writes such a
  snapshot.
\<close>

theorem duel_snapshot_without_round_written:
  "matchId duel_example = None
   \<and> currentRound duel_example = None
   \<and> disk (duel_unmount_cleanup 7 (example_world duel_example)) STATE_STORAGE_KEY
       = Some (JSON_stringify (with_savedAt
           (duel_snapshot_object (duel_initial_state (Some ''https://images.example/1.jpg''))) 7))"
  by (simp add: duel_example_def duel_storeLastState_def duel_initial_state_def
        duel_snapshot_object_def duel_unmount_cleanup_def persistAiDuelState_def
        example_world_def setItem_def)

text \<open>
  The handlers that write a snapshot without looking at its payload: both handlers of
  the panorama screen, although its \<^verbatim>\<open>persistGameState\<close> has the guard, and the handler
  of app state changes of the duel screen.
\<close>

lemma unguarded_snapshot_writes:
  assumes "nextState = Background \<or> nextState = Inactive"
  shows "\<not> skipPersistRef (ui w) \<Longrightarrow> lastStateRef (ui w) = Some snapshot \<Longrightarrow>
           disk (handleAppStateChange Pano now nextState w) (GAME_STATE_STORAGE_KEY Pano)
             = Some (JSON_stringify (with_savedAt snapshot now))"
    and "\<not> skipPersistRef (ui w) \<Longrightarrow> lastStateRef (ui w) = Some snapshot \<Longrightarrow>
           disk (unmount_cleanup Pano now w) (GAME_STATE_STORAGE_KEY Pano)
             = Some (JSON_stringify (with_savedAt snapshot now))"
    and "duel_lastStateRef (ui d) = Some snapshot \<Longrightarrow>
           disk (duel_handleAppStateChange now nextState d) STATE_STORAGE_KEY
             = Some (JSON_stringify (with_savedAt snapshot now))"
  using assms
  by (auto simp: Let_def clearSummaryTimeout_def cancelSummaryModal_def writeSnapshot_def
        setItem_def duel_handleAppStateChange_def)

section \<open>The high score outlives the session\<close>

lemma loadHighScore_reads:
  "disk w (highScoreKey scr) = Some (toString n) \<Longrightarrow>
     highScore (ui (loadHighScore scr w)) = Finite n"
  by (simp add: loadHighScore_def toString_def JSON_stringify_def)

lemma loadHighScore_nothing_stored:
  "disk w (highScoreKey scr) = None \<Longrightarrow> loadHighScore scr w = w"
  by (simp add: loadHighScore_def)

text \<open>
  C9. A high score that is beaten is written at once under its own key, and the write
  leaves the snapshot key alone. \<^verbatim>\<open>handleReturnToMainMenu\<close> and the unmount that follows
  remove the snapshot key and leave the value under the high-score key as it was. So a
  screen mounted later over the storage left behind by such a session loads the beaten
  high score.
\<close>

theorem high_score_survives_abandonment:
  "disk (handleReturnToMainMenu scr submitted v) = (disk v)(GAME_STATE_STORAGE_KEY scr := None)
   \<and> disk (handleReturnToMainMenu scr submitted v) (highScoreKey scr) = disk v (highScoreKey scr)
   \<and> disk (unmount_cleanup scr now (handleReturnToMainMenu scr submitted v)) (highScoreKey scr)
       = disk v (highScoreKey scr)
   \<and> disk (unmount_cleanup scr now (handleReturnToMainMenu scr submitted v))
       (GAME_STATE_STORAGE_KEY scr) = None
   \<and> (trim (guess (ui w)) \<noteq> []
        \<and> mg (nc (guess (ui w))) (country (ui w)) (countryCode (ui w))
        \<and> exceeds (currentScore (ui w) + pointsEarned (guessCount (ui w) + 1)) (highScore (ui w)) \<longrightarrow>
        (let newScore = currentScore (ui w) + pointsEarned (guessCount (ui w) + 1);
             w1 = submitGuess scr nc mg w;
             w2 = unmount_cleanup scr now (handleReturnToMainMenu scr submitted w1)
         in disk w1 (highScoreKey scr) = Some (toString newScore)
            \<and> disk w1 (GAME_STATE_STORAGE_KEY scr) = disk w (GAME_STATE_STORAGE_KEY scr)
            \<and> disk w2 (highScoreKey scr) = Some (toString newScore)
            \<and> highScore (ui (loadHighScore scr
                 \<lparr>ui = initial_state r, disk = disk w2, effects = []\<rparr>)) = Finite newScore))"
proof (intro conjI impI)
  have left: "skipPersistRef (ui (handleReturnToMainMenu scr submitted x))"
    and gone: "disk (handleReturnToMainMenu scr submitted x)
                 = (disk x)(GAME_STATE_STORAGE_KEY scr := None)" for x
    by (rule handleReturnToMainMenu_result)+
  have after: "disk (unmount_cleanup scr now (handleReturnToMainMenu scr submitted x))
                 = (disk x)(GAME_STATE_STORAGE_KEY scr := None)" for x
    using suppressed_unmount_cleanup(1) [OF left] gone by simp
  show "disk (handleReturnToMainMenu scr submitted v) = (disk v)(GAME_STATE_STORAGE_KEY scr := None)"
    by (rule gone)
  show "disk (handleReturnToMainMenu scr submitted v) (highScoreKey scr) = disk v (highScoreKey scr)"
    by (simp add: gone storage_keys_differ)
  show "disk (unmount_cleanup scr now (handleReturnToMainMenu scr submitted v)) (highScoreKey scr)
          = disk v (highScoreKey scr)"
    by (simp add: after storage_keys_differ)
  show "disk (unmount_cleanup scr now (handleReturnToMainMenu scr submitted v))
          (GAME_STATE_STORAGE_KEY scr) = None"
    by (simp add: after)
  assume "trim (guess (ui w)) \<noteq> []
          \<and> mg (nc (guess (ui w))) (country (ui w)) (countryCode (ui w))
          \<and> exceeds (currentScore (ui w) + pointsEarned (guessCount (ui w) + 1)) (highScore (ui w))"
  then have typed: "trim (guess (ui w)) \<noteq> []"
    and right: "mg (nc (guess (ui w))) (country (ui w)) (countryCode (ui w))"
    and beaten: "exceeds (currentScore (ui w) + pointsEarned (guessCount (ui w) + 1)) (highScore (ui w))"
    by simp_all
  let ?n = "currentScore (ui w) + pointsEarned (guessCount (ui w) + 1)"
  let ?w1 = "submitGuess scr nc mg w"
  let ?w2 = "unmount_cleanup scr now (handleReturnToMainMenu scr submitted ?w1)"
  have d1: "disk ?w1 = (disk w)(highScoreKey scr \<mapsto> toString ?n)"
    using submitGuess_right(5) [where mg = mg and nc = nc and scr = scr, OF typed right] beaten
    by simp
  have d2: "disk ?w2 (highScoreKey scr) = Some (toString ?n)"
    by (simp add: after d1 storage_keys_differ)
  have "highScore (ui (loadHighScore scr \<lparr>ui = initial_state r, disk = disk ?w2, effects = []\<rparr>))
          = Finite ?n"
    by (rule loadHighScore_reads) (simp add: d2)
  then show "let newScore = currentScore (ui w) + pointsEarned (guessCount (ui w) + 1);
                 w1 = submitGuess scr nc mg w;
                 w2 = unmount_cleanup scr now (handleReturnToMainMenu scr submitted w1)
             in disk w1 (highScoreKey scr) = Some (toString newScore)
                \<and> disk w1 (GAME_STATE_STORAGE_KEY scr) = disk w (GAME_STATE_STORAGE_KEY scr)
                \<and> disk w2 (highScoreKey scr) = Some (toString newScore)
                \<and> highScore (ui (loadHighScore scr
                     \<lparr>ui = initial_state r, disk = disk w2, effects = []\<rparr>)) = Finite newScore"
    unfolding Let_def using d1 d2 by (simp add: storage_keys_differ)
qed

theorem high_score_survives_abandonment_witness:
  "disk (unmount_cleanup Game 2000 (handleReturnToMainMenu Game True
      (submitGuess Game id exactMatch (example_world example_round)))) ''highScore''
     = Some (toString 8)
   \<and> highScore (ui (loadHighScore Game
       \<lparr>ui = initial_state None,
        disk = disk (unmount_cleanup Game 2000 (handleReturnToMainMenu Game True
                 (submitGuess Game id exactMatch (example_world example_round)))),
        effects = []\<rparr>)) = Finite 8"
proof -
  let ?A = "example_world example_round"
  have a: "trim (guess (ui ?A)) \<noteq> []
           \<and> exactMatch (id (guess (ui ?A))) (country (ui ?A)) (countryCode (ui ?A))
           \<and> exceeds (currentScore (ui ?A) + pointsEarned (guessCount (ui ?A) + 1)) (highScore (ui ?A))"
    by (simp add: example_defs pointsEarned_def)
  have n: "currentScore (ui ?A) + pointsEarned (guessCount (ui ?A) + 1) = 8"
    by (simp add: example_defs pointsEarned_def)
  from high_score_survives_abandonment
         [where w = ?A and mg = exactMatch and nc = id and scr = Game and now = 2000
            and submitted = True and r = None] a
  show ?thesis unfolding Let_def n by simp
qed

section \<open>Properties of restoring\<close>

lemma restore_nothing_to_parse:
  "disk w (GAME_STATE_STORAGE_KEY scr) = None \<Longrightarrow>
     restorePersistedGameState scr c now w = (False, w)"
  "disk w (GAME_STATE_STORAGE_KEY scr) = Some raw \<Longrightarrow> empty_text raw \<or> json_parse raw = None \<Longrightarrow>
     restorePersistedGameState scr c now w = (False, w)"
  by (auto simp: restorePersistedGameState_def)

lemma restore_rejects:
  assumes "disk w (GAME_STATE_STORAGE_KEY scr) = Some raw" "\<not> empty_text raw"
    "json_parse raw = Some parsed"
  shows "\<not> truthy parsed \<or> \<not> typeof_object parsed \<or> \<not> truthy (jget parsed (imageField scr))
           \<or> \<not> typeof_number (jget parsed ''savedAt'') \<Longrightarrow>
         restorePersistedGameState scr c now w = (False, clearPersistedGameState scr w)"
    and "jget parsed ''savedAt'' = JNum savedAt \<Longrightarrow> of_int now - savedAt > of_int GAME_STATE_MAX_AGE_MS \<Longrightarrow>
         restorePersistedGameState scr c now w = (False, clearPersistedGameState scr w)"
  using assms
  by (auto simp: restorePersistedGameState_def split: json.splits)

lemma restore_accepts:
  assumes "disk w (GAME_STATE_STORAGE_KEY scr) = Some raw" "\<not> empty_text raw"
    "json_parse raw = Some parsed" "truthy parsed" "typeof_object parsed"
    "truthy (jget parsed (imageField scr))" "jget parsed ''savedAt'' = JNum savedAt"
    "of_int now - savedAt \<le> of_int GAME_STATE_MAX_AGE_MS"
  shows "restorePersistedGameState scr c now w = (True, w\<lparr>ui := applySnapshot scr c parsed (ui w)\<rparr>)"
  using assms
  by (auto simp: restorePersistedGameState_def split: json.splits)

lemma restore_failure_keeps_state:
  "\<not> fst (restorePersistedGameState scr c now w) \<Longrightarrow>
     ui (snd (restorePersistedGameState scr c now w)) = ui w"
  by (auto simp: restorePersistedGameState_def clearPersistedGameState_def
        split: option.splits json.splits if_splits)

text \<open>
  C5, as the code has it, on both screens. The maximal age is 8 hours. A stored text
  that parses to a value which is no object with a truthy image field and a numeric
  \<^verbatim>\<open>savedAt\<close>, or to a snapshot older than the maximal age, makes the restore return
  \<^verbatim>\<open>false\<close> and remove the key, and nothing else changes. A missing, empty or unparsable
  text makes it return \<^verbatim>\<open>false\<close> and change nothing, the storage included. Whenever
  the restore returns \<^verbatim>\<open>false\<close> the state is the one it started from.
\<close>

theorem stale_or_malformed_snapshot_rejected:
  "GAME_STATE_MAX_AGE_MS = 8 * 60 * 60 * 1000
   \<and> (disk w (GAME_STATE_STORAGE_KEY scr) = Some raw \<and> \<not> empty_text raw
        \<and> json_parse raw = Some parsed
        \<and> (\<not> truthy parsed \<or> \<not> typeof_object parsed
             \<or> \<not> truthy (jget parsed (imageField scr))
             \<or> \<not> typeof_number (jget parsed ''savedAt'')
             \<or> (\<exists>savedAt. jget parsed ''savedAt'' = JNum savedAt
                   \<and> of_int now - savedAt > of_int GAME_STATE_MAX_AGE_MS)) \<longrightarrow>
        restorePersistedGameState scr c now w
          = (False, w\<lparr>disk := (disk w)(GAME_STATE_STORAGE_KEY scr := None)\<rparr>))
   \<and> (disk w (GAME_STATE_STORAGE_KEY scr) = None
        \<or> (\<exists>text. disk w (GAME_STATE_STORAGE_KEY scr) = Some text
              \<and> (empty_text text \<or> json_parse text = None)) \<longrightarrow>
        restorePersistedGameState scr c now w = (False, w))
   \<and> (\<not> fst (restorePersistedGameState scr c now w) \<longrightarrow>
        ui (snd (restorePersistedGameState scr c now w)) = ui w)"
proof (intro conjI impI)
  show "GAME_STATE_MAX_AGE_MS = 8 * 60 * 60 * 1000"
    by (simp add: GAME_STATE_MAX_AGE_MS_def)
next
  assume a: "disk w (GAME_STATE_STORAGE_KEY scr) = Some raw \<and> \<not> empty_text raw
        \<and> json_parse raw = Some parsed
        \<and> (\<not> truthy parsed \<or> \<not> typeof_object parsed
             \<or> \<not> truthy (jget parsed (imageField scr))
             \<or> \<not> typeof_number (jget parsed ''savedAt'')
             \<or> (\<exists>savedAt. jget parsed ''savedAt'' = JNum savedAt
                   \<and> of_int now - savedAt > of_int GAME_STATE_MAX_AGE_MS))"
  then have stored: "disk w (GAME_STATE_STORAGE_KEY scr) = Some raw" "\<not> empty_text raw"
    "json_parse raw = Some parsed" by simp_all
  from a consider
      "\<not> truthy parsed \<or> \<not> typeof_object parsed \<or> \<not> truthy (jget parsed (imageField scr))
         \<or> \<not> typeof_number (jget parsed ''savedAt'')"
    | savedAt where "jget parsed ''savedAt'' = JNum savedAt" "of_int now - savedAt > of_int GAME_STATE_MAX_AGE_MS"
    by blast
  then have "restorePersistedGameState scr c now w = (False, clearPersistedGameState scr w)"
  proof cases
    case 1
    then show ?thesis by (rule restore_rejects(1) [OF stored])
  next
    case 2
    then show ?thesis by (rule restore_rejects(2) [OF stored])
  qed
  then show "restorePersistedGameState scr c now w
               = (False, w\<lparr>disk := (disk w)(GAME_STATE_STORAGE_KEY scr := None)\<rparr>)"
    by (simp add: clearPersistedGameState_def removeItem_def)
next
  assume "disk w (GAME_STATE_STORAGE_KEY scr) = None
        \<or> (\<exists>text. disk w (GAME_STATE_STORAGE_KEY scr) = Some text
              \<and> (empty_text text \<or> json_parse text = None))"
  then show "restorePersistedGameState scr c now w = (False, w)"
    using restore_nothing_to_parse by blast
next
  assume "\<not> fst (restorePersistedGameState scr c now w)"
  then show "ui (snd (restorePersistedGameState scr c now w)) = ui w"
    by (rule restore_failure_keeps_state)
qed

lemma snapshot_fields:
  "jget (with_savedAt (snapshot_object scr s) now) ''savedAt'' = JNum (of_int now)"
  "jget (with_savedAt (snapshot_object scr s) now) (imageField scr) = json_of_string_opt (imageUrl s)"
  "jget (with_savedAt (snapshot_object scr s) now) ''country'' = json_of_string_opt (country s)"
  "jget (with_savedAt (snapshot_object scr s) now) ''countryCode'' = json_of_string_opt (countryCode s)"
  "jget (with_savedAt (snapshot_object scr s) now) ''displayName'' = json_of_string_opt (displayName s)"
  "jget (with_savedAt (snapshot_object scr s) now) ''coord'' = json_of_coord (coord s)"
  "jget (with_savedAt (snapshot_object scr s) now) ''contributor'' = json_of_string_opt (contributor s)"
  "jget (with_savedAt (snapshot_object scr s) now) ''guess'' = JStr (guess s)"
  "jget (with_savedAt (snapshot_object scr s) now) ''guessCount'' = JNum (of_int (guessCount s))"
  "jget (with_savedAt (snapshot_object scr s) now) ''incorrectGuesses'' = JArr (incorrectGuesses s)"
  "jget (with_savedAt (snapshot_object scr s) now) ''feedback'' = JStr (feedback s)"
  "jget (with_savedAt (snapshot_object scr s) now) ''gameOver'' = JBool (gameOver s)"
  "jget (with_savedAt (snapshot_object scr s) now) ''currentScore'' = JNum (of_int (currentScore s))"
  "jget (with_savedAt (snapshot_object scr s) now) ''highScore'' = json_of_jsnum (highScore s)"
  "jget (with_savedAt (snapshot_object scr s) now) ''nextRound'' = json_of_nullable (nextRound s)"
  "jget (with_savedAt (snapshot_object scr s) now) ''roundNumber'' = JNum (of_int (roundNumber s))"
  "jget (with_savedAt (snapshot_object scr s) now) ''correctAnswers'' = JNum (of_int (correctAnswers s))"
  "jget (with_savedAt (snapshot_object scr s) now) ''completedRounds'' = JNum (of_int (completedRounds s))"
  "jget (with_savedAt (snapshot_object scr s) now) ''showGameSummary'' = JBool (showGameSummary s)"
  "jget (with_savedAt (snapshot_object scr s) now) ''gameSessionId'' = json_of_string_opt (gameSessionId s)"
  "jget (with_savedAt (snapshot_object scr s) now) ''submitToLeaderboard'' = JBool (submitToLeaderboard s)"
  "jget (with_savedAt (snapshot_object scr s) now) ''isContinued'' = JBool (isContinued s)"
  by (cases scr; simp add: snapshot_object_def)+

lemma snapshot_is_object:
  "truthy (with_savedAt (snapshot_object scr s) now)"
  "typeof_object (with_savedAt (snapshot_object scr s) now)"
  by (simp_all add: snapshot_object_def)

lemma saved_world_disk:
  "disk saved_world (GAME_STATE_STORAGE_KEY Game)
     = Some (JSON_stringify (with_savedAt (snapshot_object Game example_round) 1000))"
  "disk remounted_world = disk saved_world"
  "ui remounted_world = initial_state None"
proof -
  have "truthy (jget (snapshot_object Game example_round) (imageField Game))"
    by (simp add: snapshot_object_def example_round_def initial_state_def)
  then show "disk saved_world (GAME_STATE_STORAGE_KEY Game)
     = Some (JSON_stringify (with_savedAt (snapshot_object Game example_round) 1000))"
    unfolding saved_world_def
    by (subst persistGameState_writes [where snapshot = "snapshot_object Game example_round"])
       (simp_all add: example_world_def storeLastState_def)
qed (simp_all add: remounted_world_def)

text \<open>
  The example of the specification: a snapshot saved at time T and read at T plus 9
  hours is not found, the store is empty afterwards and the state is untouched. A screen
  mounted over an empty store finds nothing and changes nothing.
\<close>

theorem stale_or_malformed_snapshot_rejected_witness:
  "\<not> fst (restorePersistedGameState Game (Finite 0) (1000 + 9 * 60 * 60 * 1000) remounted_world)
   \<and> disk (snd (restorePersistedGameState Game (Finite 0) (1000 + 9 * 60 * 60 * 1000)
        remounted_world)) (GAME_STATE_STORAGE_KEY Game) = None
   \<and> ui (snd (restorePersistedGameState Game (Finite 0) (1000 + 9 * 60 * 60 * 1000)
        remounted_world)) = initial_state None
   \<and> restorePersistedGameState Pano (Finite 0) 1000 (example_world (initial_state None))
       = (False, example_world (initial_state None))"
proof -
  let ?parsed = "with_savedAt (snapshot_object Game example_round) 1000"
  have old: "disk remounted_world (GAME_STATE_STORAGE_KEY Game) = Some (JSON_stringify ?parsed)
        \<and> \<not> empty_text (JSON_stringify ?parsed)
        \<and> json_parse (JSON_stringify ?parsed) = Some ?parsed
        \<and> (\<not> truthy ?parsed \<or> \<not> typeof_object ?parsed
             \<or> \<not> truthy (jget ?parsed (imageField Game))
             \<or> \<not> typeof_number (jget ?parsed ''savedAt'')
             \<or> (\<exists>savedAt. jget ?parsed ''savedAt'' = JNum savedAt
                   \<and> of_int (1000 + 9 * 60 * 60 * 1000) - savedAt > of_int GAME_STATE_MAX_AGE_MS))"
  proof (intro conjI)
    show "disk remounted_world (GAME_STATE_STORAGE_KEY Game) = Some (JSON_stringify ?parsed)"
      using saved_world_disk(1,2) by simp
    show "\<not> empty_text (JSON_stringify ?parsed)"
      and "json_parse (JSON_stringify ?parsed) = Some ?parsed"
      by (simp_all add: JSON_stringify_def)
    have "jget ?parsed ''savedAt'' = JNum 1000
          \<and> of_int (1000 + 9 * 60 * 60 * 1000) - (1000::rat) > of_int GAME_STATE_MAX_AGE_MS"
      by (simp add: snapshot_fields GAME_STATE_MAX_AGE_MS_def)
    then show "\<not> truthy ?parsed \<or> \<not> typeof_object ?parsed
             \<or> \<not> truthy (jget ?parsed (imageField Game))
             \<or> \<not> typeof_number (jget ?parsed ''savedAt'')
             \<or> (\<exists>savedAt. jget ?parsed ''savedAt'' = JNum savedAt
                   \<and> of_int (1000 + 9 * 60 * 60 * 1000) - savedAt > of_int GAME_STATE_MAX_AGE_MS)"
      by blast
  qed
  have none: "disk (example_world (initial_state None)) (GAME_STATE_STORAGE_KEY Pano) = None
        \<or> (\<exists>text. disk (example_world (initial_state None)) (GAME_STATE_STORAGE_KEY Pano) = Some text
              \<and> (empty_text text \<or> json_parse text = None))"
    by (simp add: example_world_def)
  from stale_or_malformed_snapshot_rejected
         [where w = remounted_world and scr = Game and raw = "JSON_stringify ?parsed"
            and parsed = ?parsed and now = "1000 + 9 * 60 * 60 * 1000" and c = "Finite 0"] old
  have "restorePersistedGameState Game (Finite 0) (1000 + 9 * 60 * 60 * 1000) remounted_world
          = (False, remounted_world\<lparr>disk := (disk remounted_world)(GAME_STATE_STORAGE_KEY Game := None)\<rparr>)"
    by blast
  moreover
  from stale_or_malformed_snapshot_rejected
         [where w = "example_world (initial_state None)" and scr = Pano and now = 1000
            and c = "Finite 0"] none
  have "restorePersistedGameState Pano (Finite 0) 1000 (example_world (initial_state None))
          = (False, example_world (initial_state None))"
    by blast
  ultimately show ?thesis by (simp add: saved_world_disk)
qed

text \<open>
  The claim C5 has every malformed stored value deleted by the restore. A text that is
  not JSON ends the restore in its \<^verbatim>\<open>catch\<close> block: it returns \<^verbatim>\<open>false\<close> and the text
  is still stored (the bootstrap removes it afterwards).
\<close>

theorem unparsable_text_not_deleted:
  "\<not> fst (restorePersistedGameState Game (Finite 0) 1000 garbled_world)
   \<and> disk (snd (restorePersistedGameState Game (Finite 0) 1000 garbled_world))
       (GAME_STATE_STORAGE_KEY Game) = Some garbled_text"
  by (simp add: restorePersistedGameState_def garbled_world_def garbled_text_def
        example_world_def)

lemma startGame_disk: "disk (startGame scr s outcome w) = disk w"
  by (simp add: startGame_def Let_def showRound_def alert_def
        split: screen.splits fetched.splits)

lemma storeGameSessionId_frame:
  "k \<noteq> ''gameSessionIds'' \<Longrightarrow> storeGameSessionId sid d k = d k"
  by (simp add: storeGameSessionId_def Let_def setItem_def split: option.splits json.splits)

lemma initializeGameSession_disk:
  "k \<noteq> ''gameSessionIds'' \<Longrightarrow> disk (initializeGameSession scr s session outcome w) k = disk w k"
  by (simp add: initializeGameSession_def Let_def startGame_disk alert_def storeGameSessionId_frame
        split: option.splits)

text \<open>The bootstrap removes what the restore has left: a text that is not JSON.\<close>

lemma bootstrap_clears_unparsable_text:
  assumes "disk w (GAME_STATE_STORAGE_KEY scr) = Some text" and "json_parse text = None"
  shows "disk (bootstrap scr initialPrefetchedRound now session outcome w)
           (GAME_STATE_STORAGE_KEY scr) = None"
proof -
  have "GAME_STATE_STORAGE_KEY scr \<noteq> ''gameSessionIds''"
    by (cases scr) simp_all
  then show ?thesis
    using assms
    by (simp add: bootstrap_def Let_def restore_nothing_to_parse(2) initializeGameSession_disk
          clearPersistedGameState_def removeItem_def)
qed

section \<open>Saving and restoring a round\<close>

lemma decode_string_opt: "string_or (json_of_string_opt x) None Some = x"
  by (cases x) simp_all

lemma decode_coord: "coord_of_json (json_of_coord c) = c"
  by (cases c) (auto simp: coord_of_json_def)

lemma decode_int: "finite_or (JNum (of_int n)) d f = f n"
  by simp

lemma decode_jsnum: "h \<noteq> NaN \<Longrightarrow> finite_or (json_of_jsnum h) d Finite = h"
  by (cases h) simp_all

lemma decode_nullable: "x \<noteq> Some JNull \<Longrightarrow> nullish (json_of_nullable x) = x"
proof (cases x)
  case None
  then show ?thesis by simp
next
  case (Some v)
  assume "x \<noteq> Some JNull"
  with Some show ?thesis by (cases v) simp_all
qed

lemma decode_guesses:
  "\<forall>g \<in> set xs. typeof_string g \<Longrightarrow> restored_guesses scr (JArr xs) = xs"
  by (cases scr) simp_all

lemma applySnapshot_of_snapshot:
  assumes "highScore s \<noteq> NaN" and "nextRound s \<noteq> Some JNull"
    and "\<forall>g \<in> set (incorrectGuesses s). typeof_string g"
  shows "applySnapshot scr c (with_savedAt (snapshot_object scr s) now) u = u
     \<lparr>imageUrl := imageUrl s, coord := coord s, contributor := contributor s,
      country := country s, countryCode := countryCode s, displayName := displayName s,
      guess := guess s, guessCount := guessCount s, incorrectGuesses := incorrectGuesses s,
      feedback := feedback s, gameOver := gameOver s, currentScore := currentScore s,
      highScore := highScore s, roundNumber := roundNumber s,
      correctAnswers := correctAnswers s, completedRounds := completedRounds s,
      showGameSummary := showGameSummary s, gameSessionId := gameSessionId s,
      submitToLeaderboard := submitToLeaderboard s, isContinued := isContinued s,
      nextRound := nextRound s, loading := False\<rparr>"
  unfolding applySnapshot_def snapshot_fields
  using assms
  by (simp add: decode_string_opt decode_coord decode_int decode_jsnum decode_nullable
        decode_guesses)

text \<open>
  C6. Let the state effect have stored the state \<open>s\<close> of a round in play: an image
  address that is not empty, a high score that is a number, guesses that are texts and a
  prefetch slot that is empty or holds a round. The coordinates of the round and the
  numbers inside the prefetched round are any finite numbers, whole or fractional. A
  snapshot of it written by
  \<^verbatim>\<open>persistGameState\<close> at \<open>now\<close> and read by \<^verbatim>\<open>restorePersistedGameState\<close> at \<open>later\<close>,
  not more than the maximal age after, is found, and every persisted state variable of
  the restoring screen gets the value it has in \<open>s\<close>; \<^verbatim>\<open>loading\<close> is switched off and
  nothing else changes.
\<close>

theorem persisted_round_restored:
  assumes "lastStateRef (ui w) = Some (snapshot_object scr s)"
    and "has_text (imageUrl s)"
    and "highScore s \<noteq> NaN"
    and "nextRound s \<noteq> Some JNull"
    and "\<forall>g \<in> set (incorrectGuesses s). typeof_string g"
    and "disk v (GAME_STATE_STORAGE_KEY scr)
           = disk (persistGameState scr now w) (GAME_STATE_STORAGE_KEY scr)"
    and "later - now \<le> GAME_STATE_MAX_AGE_MS"
  shows "restorePersistedGameState scr c later v = (True, v\<lparr>ui := (ui v)
     \<lparr>imageUrl := imageUrl s, coord := coord s, contributor := contributor s,
      country := country s, countryCode := countryCode s, displayName := displayName s,
      guess := guess s, guessCount := guessCount s, incorrectGuesses := incorrectGuesses s,
      feedback := feedback s, gameOver := gameOver s, currentScore := currentScore s,
      highScore := highScore s, roundNumber := roundNumber s,
      correctAnswers := correctAnswers s, completedRounds := completedRounds s,
      showGameSummary := showGameSummary s, gameSessionId := gameSessionId s,
      submitToLeaderboard := submitToLeaderboard s, isContinued := isContinued s,
      nextRound := nextRound s, loading := False\<rparr>\<rparr>)"
proof -
  let ?parsed = "with_savedAt (snapshot_object scr s) now"
  have image: "truthy (jget (snapshot_object scr s) (imageField scr))"
    using assms(2) by (simp only: snapshot_image_field truthy_string_opt)
  have stored: "disk v (GAME_STATE_STORAGE_KEY scr) = Some (JSON_stringify ?parsed)"
    using persistGameState_writes [OF assms(1) image, of now] assms(6) by simp
  have written: "\<not> empty_text (JSON_stringify ?parsed)"
    "json_parse (JSON_stringify ?parsed) = Some ?parsed"
    by (simp_all add: JSON_stringify_def)
  have image': "truthy (jget ?parsed (imageField scr))"
    using assms(2) by (simp only: snapshot_fields truthy_string_opt)
  have age: "of_int later - (of_int now :: rat) \<le> of_int GAME_STATE_MAX_AGE_MS"
    using assms(7) by (simp only: of_int_diff [symmetric] of_int_le_iff)
  have "restorePersistedGameState scr c later v
          = (True, v\<lparr>ui := applySnapshot scr c ?parsed (ui v)\<rparr>)"
    using stored written snapshot_is_object image' snapshot_fields(1) age
    by (rule restore_accepts)
  then show ?thesis
    by (simp only: applySnapshot_of_snapshot [OF assms(3,4,5)])
qed

text \<open>
  The example round, saved at time 1000 and restored 8 hours later by a freshly mounted
  screen: the snapshot is found and the round is back, with its fractional coordinates,
  its score and its high score.
\<close>

theorem persisted_round_restored_witness:
  "fst (restorePersistedGameState Game (Finite 0) (1000 + 8 * 60 * 60 * 1000) remounted_world)
   \<and> coord (ui (snd (restorePersistedGameState Game (Finite 0) (1000 + 8 * 60 * 60 * 1000)
        remounted_world))) = Some (488566 / 10000, 23522 / 10000)
   \<and> imageUrl (ui (snd (restorePersistedGameState Game (Finite 0) (1000 + 8 * 60 * 60 * 1000)
        remounted_world))) = Some ''https://images.example/1.jpg''
   \<and> currentScore (ui (snd (restorePersistedGameState Game (Finite 0) (1000 + 8 * 60 * 60 * 1000)
        remounted_world))) = 5
   \<and> highScore (ui (snd (restorePersistedGameState Game (Finite 0) (1000 + 8 * 60 * 60 * 1000)
        remounted_world))) = Finite 4
   \<and> gameSessionId (ui (snd (restorePersistedGameState Game (Finite 0) (1000 + 8 * 60 * 60 * 1000)
        remounted_world))) = Some ''session-1''"
proof -
  let ?w = "example_world (storeLastState Game example_round)"
  have h: "lastStateRef (ui ?w) = Some (snapshot_object Game example_round)"
    "has_text (imageUrl example_round)"
    "highScore example_round \<noteq> NaN"
    "nextRound example_round \<noteq> Some JNull"
    "\<forall>g \<in> set (incorrectGuesses example_round). typeof_string g"
    "disk remounted_world (GAME_STATE_STORAGE_KEY Game)
       = disk (persistGameState Game 1000 ?w) (GAME_STATE_STORAGE_KEY Game)"
    "(1000 + 8 * 60 * 60 * 1000) - 1000 \<le> GAME_STATE_MAX_AGE_MS"
    by (simp_all add: example_world_def storeLastState_def example_round_def initial_state_def
          remounted_world_def saved_world_def GAME_STATE_MAX_AGE_MS_def)
  note found = persisted_round_restored [OF h, of "Finite 0"]
  show ?thesis
    unfolding found by (simp add: example_round_def initial_state_def)
qed

section \<open>Properties of starting a new game\<close>

lemma alert_frame:
  "ui (alert t m w) = ui w" "disk (alert t m w) = disk w"
  "filter is_submission (effects (alert t m w)) = filter is_submission (effects w)"
  by (simp_all add: alert_def)

lemma prefetch_begin_frame:
  "currentScore (snd (prefetchNextRound_begin u)) = currentScore u"
  "correctAnswers (snd (prefetchNextRound_begin u)) = correctAnswers u"
  "completedRounds (snd (prefetchNextRound_begin u)) = completedRounds u"
  "roundNumber (snd (prefetchNextRound_begin u)) = roundNumber u"
  "isContinued (snd (prefetchNextRound_begin u)) = isContinued u"
  "gameSessionId (snd (prefetchNextRound_begin u)) = gameSessionId u"
  by (simp_all add: prefetchNextRound_begin_def Let_def)

lemma showRound_frame:
  "currentScore (ui (showRound scr s r w)) = currentScore (ui w)"
  "correctAnswers (ui (showRound scr s r w)) = correctAnswers (ui w)"
  "completedRounds (ui (showRound scr s r w)) = completedRounds (ui w)"
  "roundNumber (ui (showRound scr s r w)) = roundNumber (ui w)"
  "isContinued (ui (showRound scr s r w)) = isContinued (ui w)"
  "gameSessionId (ui (showRound scr s r w)) = gameSessionId (ui w)"
  "disk (showRound scr s r w) = disk w"
  "filter is_submission (effects (showRound scr s r w)) = filter is_submission (effects w)"
  by (simp_all add: showRound_def Let_def alert_frame prefetch_begin_frame split: screen.splits)

lemma startGame_frame:
  "currentScore (ui (startGame scr s outcome w)) = currentScore (ui w)"
  "correctAnswers (ui (startGame scr s outcome w)) = correctAnswers (ui w)"
  "completedRounds (ui (startGame scr s outcome w))
     = (if completedRounds s \<ge> TOTAL_ROUNDS then 0 else completedRounds (ui w))"
  "roundNumber (ui (startGame scr s outcome w))
     = (if completedRounds s \<ge> TOTAL_ROUNDS then 1 else roundNumber (ui w))"
  "isContinued (ui (startGame scr s outcome w)) = isContinued (ui w)"
  "gameSessionId (ui (startGame scr s outcome w)) = gameSessionId (ui w)"
  "disk (startGame scr s outcome w) = disk w"
  "filter is_submission (effects (startGame scr s outcome w)) = filter is_submission (effects w)"
  by (simp_all add: startGame_def Let_def showRound_frame alert_frame
        clearSummaryTimeout_def cancelSummaryModal_def split: screen.splits fetched.splits)

lemma initializeGameSession_frame:
  "currentScore (ui (initializeGameSession scr s session outcome w)) = currentScore (ui w)"
  "correctAnswers (ui (initializeGameSession scr s session outcome w)) = correctAnswers (ui w)"
  "completedRounds (ui (initializeGameSession scr s session outcome w))
     = (if completedRounds s \<ge> TOTAL_ROUNDS then 0 else completedRounds (ui w))"
  "roundNumber (ui (initializeGameSession scr s session outcome w))
     = (if completedRounds s \<ge> TOTAL_ROUNDS then 1 else roundNumber (ui w))"
  "isContinued (ui (initializeGameSession scr s session outcome w)) = isContinued (ui w)"
  "gameSessionId (ui (initializeGameSession scr s session outcome w))
     = (case session of None \<Rightarrow> gameSessionId (ui w) | Some sid \<Rightarrow> Some sid)"
  "\<not> loading (ui (initializeGameSession scr s session outcome w))"
  "filter is_submission (effects (initializeGameSession scr s session outcome w))
     = filter is_submission (effects w)"
  by (simp_all add: initializeGameSession_def Let_def startGame_frame alert_frame
        split: option.splits)

lemma startFresh_fields:
  "currentScore (startFresh u) = 0" "correctAnswers (startFresh u) = 0"
  "completedRounds (startFresh u) = 0" "roundNumber (startFresh u) = 1"
  "isContinued (startFresh u) = False" "gameSessionId (startFresh u) = gameSessionId u"
  by (simp_all add: startFresh_def)

lemma newGame_submission_failed:
  assumes "submissionDue (ui w)" and "\<not> submitted"
  shows "newGame_onPress scr submitted session outcome w
           = alert ''Error'' ''Could not submit score to leaderboard.'' (submitScore (ui w) w)"
  using assms by (simp add: newGame_onPress_def Let_def)

lemma newGame_goes_ahead:
  assumes "\<not> submissionDue (ui w) \<or> submitted"
  shows "currentScore (ui (newGame_onPress scr submitted session outcome w)) = 0"
    and "correctAnswers (ui (newGame_onPress scr submitted session outcome w)) = 0"
    and "completedRounds (ui (newGame_onPress scr submitted session outcome w)) = 0"
    and "roundNumber (ui (newGame_onPress scr submitted session outcome w)) = 1"
    and "\<not> isContinued (ui (newGame_onPress scr submitted session outcome w))"
    and "gameSessionId (ui (newGame_onPress scr submitted session outcome w))
           = (case session of None \<Rightarrow> gameSessionId (ui w) | Some sid \<Rightarrow> Some sid)"
    and "\<not> loading (ui (newGame_onPress scr submitted session outcome w))"
  using assms
  by (auto simp: newGame_onPress_def Let_def initializeGameSession_frame alert_frame
        startFresh_fields submitScore_def split: option.splits)

lemma newGame_submissions:
  "filter is_submission (effects (newGame_onPress scr submitted session outcome w))
     = filter is_submission (effects (if submissionDue (ui w) then submitScore (ui w) w else w))"
  by (simp add: newGame_onPress_def Let_def initializeGameSession_frame alert_frame)

text \<open>
  C7, as the code has it. The New Game button calls the score submitter exactly when
  the user has not opted out, a session identifier exists and the score is positive.
  When no submission is due, or the submission succeeds, the score, the count of correct
  answers, the count of completed rounds and the round number are reset, the continued
  flag is cleared and \<^verbatim>\<open>initializeGameSession\<close> runs: the screen ends with the new
  session identifier when one is granted. When the submission fails, the handler shows
  an error alert and does nothing else: state and storage are as before.
\<close>

theorem new_game_submits_then_resets:
  "filter is_submission (effects (newGame_onPress scr submitted session outcome w))
     = filter is_submission (effects w)
       @ (if submitToLeaderboard (ui w) \<and> has_text (gameSessionId (ui w)) \<and> currentScore (ui w) > 0
          then [SubmitScore (case gameSessionId (ui w) of None \<Rightarrow> [] | Some sid \<Rightarrow> sid)
                  (currentScore (ui w)) (correctAnswers (ui w)) TOTAL_ROUNDS (completedRounds (ui w))]
          else [])
   \<and> (\<not> (submitToLeaderboard (ui w) \<and> has_text (gameSessionId (ui w)) \<and> currentScore (ui w) > 0)
        \<or> submitted \<longrightarrow>
        currentScore (ui (newGame_onPress scr submitted session outcome w)) = 0
        \<and> correctAnswers (ui (newGame_onPress scr submitted session outcome w)) = 0
        \<and> completedRounds (ui (newGame_onPress scr submitted session outcome w)) = 0
        \<and> roundNumber (ui (newGame_onPress scr submitted session outcome w)) = 1
        \<and> \<not> isContinued (ui (newGame_onPress scr submitted session outcome w))
        \<and> gameSessionId (ui (newGame_onPress scr submitted session outcome w))
            = (case session of None \<Rightarrow> gameSessionId (ui w) | Some sid \<Rightarrow> Some sid))
   \<and> (submitToLeaderboard (ui w) \<and> has_text (gameSessionId (ui w)) \<and> currentScore (ui w) > 0
        \<and> \<not> submitted \<longrightarrow>
        ui (newGame_onPress scr submitted session outcome w) = ui w
        \<and> disk (newGame_onPress scr submitted session outcome w) = disk w
        \<and> effects (newGame_onPress scr submitted session outcome w)
            = effects w
              @ [SubmitScore (case gameSessionId (ui w) of None \<Rightarrow> [] | Some sid \<Rightarrow> sid)
                   (currentScore (ui w)) (correctAnswers (ui w)) TOTAL_ROUNDS (completedRounds (ui w)),
                 Alert ''Error'' ''Could not submit score to leaderboard.''])"
proof (intro conjI impI)
  show "filter is_submission (effects (newGame_onPress scr submitted session outcome w))
     = filter is_submission (effects w)
       @ (if submitToLeaderboard (ui w) \<and> has_text (gameSessionId (ui w)) \<and> currentScore (ui w) > 0
          then [SubmitScore (case gameSessionId (ui w) of None \<Rightarrow> [] | Some sid \<Rightarrow> sid)
                  (currentScore (ui w)) (correctAnswers (ui w)) TOTAL_ROUNDS (completedRounds (ui w))]
          else [])"
    unfolding newGame_submissions by (simp add: submissionDue_def submitScore_def)
next
  assume "\<not> (submitToLeaderboard (ui w) \<and> has_text (gameSessionId (ui w)) \<and> currentScore (ui w) > 0)
          \<or> submitted"
  then have ahead: "\<not> submissionDue (ui w) \<or> submitted"
    by (simp add: submissionDue_def)
  show "currentScore (ui (newGame_onPress scr submitted session outcome w)) = 0"
    and "correctAnswers (ui (newGame_onPress scr submitted session outcome w)) = 0"
    and "completedRounds (ui (newGame_onPress scr submitted session outcome w)) = 0"
    and "roundNumber (ui (newGame_onPress scr submitted session outcome w)) = 1"
    and "\<not> isContinued (ui (newGame_onPress scr submitted session outcome w))"
    and "gameSessionId (ui (newGame_onPress scr submitted session outcome w))
            = (case session of None \<Rightarrow> gameSessionId (ui w) | Some sid \<Rightarrow> Some sid)"
    using newGame_goes_ahead [OF ahead] by blast+
next
  assume "submitToLeaderboard (ui w) \<and> has_text (gameSessionId (ui w)) \<and> currentScore (ui w) > 0
          \<and> \<not> submitted"
  then have failed: "submissionDue (ui w)" "\<not> submitted"
    by (simp_all add: submissionDue_def)
  note r = newGame_submission_failed [OF failed]
  show "ui (newGame_onPress scr submitted session outcome w) = ui w"
    and "disk (newGame_onPress scr submitted session outcome w) = disk w"
    and "effects (newGame_onPress scr submitted session outcome w)
            = effects w
              @ [SubmitScore (case gameSessionId (ui w) of None \<Rightarrow> [] | Some sid \<Rightarrow> sid)
                   (currentScore (ui w)) (correctAnswers (ui w)) TOTAL_ROUNDS (completedRounds (ui w)),
                 Alert ''Error'' ''Could not submit score to leaderboard.'']"
    unfolding r by (simp_all add: alert_def submitScore_def)
qed

text \<open>
  At the end of a session with score 5: a submission that succeeds is followed by the
  reset and the new session; with the leaderboard switched off nothing is submitted and
  the reset follows as well.
\<close>

theorem new_game_submits_then_resets_witness:
  "currentScore (ui (newGame_onPress Game True (Some ''session-2'') NoResult
      (example_world (example_round\<lparr>completedRounds := 10\<rparr>)))) = 0
   \<and> gameSessionId (ui (newGame_onPress Game True (Some ''session-2'') NoResult
      (example_world (example_round\<lparr>completedRounds := 10\<rparr>)))) = Some ''session-2''
   \<and> filter is_submission (effects (newGame_onPress Game True (Some ''session-2'') NoResult
      (example_world (example_round\<lparr>completedRounds := 10\<rparr>))))
       = [SubmitScore ''session-1'' 5 0 10 10]
   \<and> roundNumber (ui (newGame_onPress Pano False (Some ''session-2'') NoResult
      (example_world (example_round\<lparr>submitToLeaderboard := False\<rparr>)))) = 1
   \<and> filter is_submission (effects (newGame_onPress Pano False (Some ''session-2'') NoResult
      (example_world (example_round\<lparr>submitToLeaderboard := False\<rparr>)))) = []
   \<and> effects (newGame_onPress Game False (Some ''session-2'') NoResult
      (example_world (example_round\<lparr>completedRounds := 10\<rparr>)))
       = [SubmitScore ''session-1'' 5 0 10 10,
          Alert ''Error'' ''Could not submit score to leaderboard.'']"
proof -
  let ?A = "example_world (example_round\<lparr>completedRounds := 10\<rparr>)"
  let ?B = "example_world (example_round\<lparr>submitToLeaderboard := False\<rparr>)"
  have a: "submitToLeaderboard (ui ?A)" "has_text (gameSessionId (ui ?A))" "currentScore (ui ?A) > 0"
    "gameSessionId (ui ?A) = Some ''session-1''" "currentScore (ui ?A) = 5"
    "correctAnswers (ui ?A) = 0" "completedRounds (ui ?A) = 10" "effects ?A = []"
    by (simp_all add: example_defs)
  have b: "\<not> submitToLeaderboard (ui ?B)" "effects ?B = []"
    by (simp_all add: example_defs)
  from new_game_submits_then_resets
         [where w = ?A and scr = Game and submitted = True and session = "Some ''session-2''"
            and outcome = NoResult]
  have "currentScore (ui (newGame_onPress Game True (Some ''session-2'') NoResult ?A)) = 0
        \<and> gameSessionId (ui (newGame_onPress Game True (Some ''session-2'') NoResult ?A))
            = Some ''session-2''
        \<and> filter is_submission (effects (newGame_onPress Game True (Some ''session-2'') NoResult ?A))
            = [SubmitScore ''session-1'' 5 0 10 10]"
    using a by (simp add: TOTAL_ROUNDS_def)
  moreover
  from new_game_submits_then_resets
         [where w = ?B and scr = Pano and submitted = False and session = "Some ''session-2''"
            and outcome = NoResult]
  have "roundNumber (ui (newGame_onPress Pano False (Some ''session-2'') NoResult ?B)) = 1
        \<and> filter is_submission (effects (newGame_onPress Pano False (Some ''session-2'') NoResult ?B))
            = []"
    using b by simp
  moreover
  from new_game_submits_then_resets
         [where w = ?A and scr = Game and submitted = False and session = "Some ''session-2''"
            and outcome = NoResult]
  have "effects (newGame_onPress Game False (Some ''session-2'') NoResult ?A)
          = [SubmitScore ''session-1'' 5 0 10 10,
             Alert ''Error'' ''Could not submit score to leaderboard.'']"
    using a by (simp add: TOTAL_ROUNDS_def)
  ultimately show ?thesis by blast
qed

text \<open>
  The claim C7 has the reset and the new session follow whatever the submission does.
  When the submission fails, the score, the counters and the session identifier are
  those of the finished session.
\<close>

theorem failed_submission_blocks_new_game:
  "currentScore (ui (newGame_onPress Game False (Some ''session-2'') NoResult
      (example_world (example_round\<lparr>completedRounds := 10\<rparr>)))) = 5
   \<and> completedRounds (ui (newGame_onPress Game False (Some ''session-2'') NoResult
      (example_world (example_round\<lparr>completedRounds := 10\<rparr>)))) = 10
   \<and> gameSessionId (ui (newGame_onPress Game False (Some ''session-2'') NoResult
      (example_world (example_round\<lparr>completedRounds := 10\<rparr>)))) = Some ''session-1''"
proof -
  let ?A = "example_world (example_round\<lparr>completedRounds := 10\<rparr>)"
  have "submissionDue (ui ?A)"
    by (simp add: submissionDue_def example_defs)
  then have "newGame_onPress Game False (Some ''session-2'') NoResult ?A
               = alert ''Error'' ''Could not submit score to leaderboard.'' (submitScore (ui ?A) ?A)"
    by (rule newGame_submission_failed) simp
  then show ?thesis
    by (simp add: alert_def submitScore_def example_defs)
qed

section \<open>Restoring on the duel screen\<close>










end
